theory Spec2Isabelle
  imports Complex_Main "HOL-Library.Signed_Division" "HOL-Library.Multiset"
begin

section \<open>Shared primitives\<close>

text \<open>
  \<^verbatim>\<open>Pixel\<close> and Go's \<^verbatim>\<open>int\<close> are modelled as unbounded integers: the layout code
  adds and subtracts pixel counts that stay far below the 64-bit range, so no wrap-around
  is written out. A Go slice is modelled by the list of its visible elements
  (\<^verbatim>\<open>len\<close> many); an index outside the slice and a nil dereference panic in Go, and every
  model function that can reach one returns an \<open>option\<close> with \<open>None\<close> for the panic.
\<close>

type_synonym Pixel = int

record SizePixels =
  Width :: Pixel
  Height :: Pixel

definition zeroSize :: SizePixels where
  "zeroSize = \<lparr>Width = 0, Height = 0\<rparr>"

text \<open>
  Modelled from the spec: \<^verbatim>\<open>maxi\<close> and \<^verbatim>\<open>maxPixel\<close> are helpers of the package that
  are not part of the excerpt; they return the larger of their two arguments ("effective
  stretch factor (\<open>\<ge>\<close> 1)", "the max over all single-span items").
\<close>

definition maxi :: "int \<Rightarrow> int \<Rightarrow> int" where
  "maxi a b = (if a > b then a else b)"

definition maxPixel :: "Pixel \<Rightarrow> Pixel \<Rightarrow> Pixel" where
  "maxPixel a b = (if a > b then a else b)"

section \<open>The grid model (\<^verbatim>\<open>GridLayout\<close>)\<close>

text \<open>
  A \<^verbatim>\<open>*WidgetBase\<close> and a window handle are modelled by natural numbers (their identity).
  A \<^verbatim>\<open>*gridLayoutCell\<close> pointer into \<^verbatim>\<open>l.cells\<close> is modelled by the position
  \<open>(row, column)\<close> of the cell it points to, \<open>None\<close> being nil; reading
  \<^verbatim>\<open>info.cell.row\<close> reads the \<open>gc_row\<close> field of the cell at that position.
  \<^verbatim>\<open>ensureSufficientSize\<close> refreshes every such pointer after it may have reallocated
  the rows, so between two calls of the API every pointer designates a live cell.
\<close>

record gridLayoutCell =
  gc_row :: int
  gc_column :: int
  gc_widgetBase :: "nat option"

definition zeroCell :: gridLayoutCell where
  "zeroCell = \<lparr>gc_row = 0, gc_column = 0, gc_widgetBase = None\<rparr>"

record gridLayoutWidgetInfo =
  wi_cell :: "(nat \<times> nat) option"
  wi_spanHorz :: int
  wi_spanVert :: int
  wi_minSize :: SizePixels

record RectangleGrid =
  rX :: int
  rY :: int
  rWidth :: int
  rHeight :: int

record Widget =
  Handle :: nat
  AsWidgetBase :: nat

record Container =
  Children :: "nat list"

text \<open>
  \<^verbatim>\<open>widgetBase2Info\<close> is a Go map; it is an association list here (keys distinct), so
  that the loop over all its entries is a recursion over a list. The loop does not depend
  on the iteration order.
\<close>

record GridLayout =
  gl_rowStretchFactors :: "int list"
  gl_columnStretchFactors :: "int list"
  gl_widgetBase2Info :: "(nat \<times> gridLayoutWidgetInfo) list"
  gl_cells :: "gridLayoutCell list list"
  gl_container :: "Container option"

datatype error =
  WidgetRequired
  | ContainerRequired
  | WidgetMustBeChild
  | RangeXYNegative
  | RangeSizeTooSmall
  | RowNegative
  | ColumnNegative
  | FactorTooSmall

text \<open>
  \<^verbatim>\<open>sufficientStretchFactors\<close>: when the slice is shorter than \<^verbatim>\<open>required\<close>, Go either
  allocates a larger array and copies, or reslices within the capacity; in both branches
  the loop that follows stores 1 in every slot from the old length on, so the visible
  result is the old elements followed by ones.
\<close>

definition sufficientStretchFactors :: "int list \<Rightarrow> int \<Rightarrow> int list" where
  "sufficientStretchFactors stretchFactors required =
     (if int (length stretchFactors) < required
      then stretchFactors @ replicate (nat required - length stretchFactors) 1
      else stretchFactors)"

text \<open>
  The last loop of \<^verbatim>\<open>ensureSufficientSize\<close>:
  \<^verbatim>\<open>l.widgetBase2Info[wb].cell = &l.cells[info.cell.row][info.cell.column]\<close>.
\<close>

primrec repointInfos ::
  "gridLayoutCell list list \<Rightarrow> (nat \<times> gridLayoutWidgetInfo) list
     \<Rightarrow> (nat \<times> gridLayoutWidgetInfo) list option" where
  "repointInfos cs [] = Some []"
| "repointInfos cs (e # es) =
     (case wi_cell (snd e) of
        None \<Rightarrow> None
      | Some p \<Rightarrow>
          if fst p < length cs \<and> snd p < length (cs ! fst p) then
            (let r = gc_row (cs ! fst p ! snd p); c = gc_column (cs ! fst p ! snd p)
             in if 0 \<le> r \<and> nat r < length cs \<and> 0 \<le> c \<and> nat c < length (cs ! nat r)
                then map_option (\<lambda>es'. (fst e, (snd e)\<lparr>wi_cell := Some (nat r, nat c)\<rparr>) # es')
                       (repointInfos cs es)
                else None)
          else None)"

definition growRow :: "nat \<Rightarrow> gridLayoutCell list \<Rightarrow> gridLayoutCell list" where
  "growRow n cols = (if length cols < n then cols @ replicate (n - length cols) zeroCell else cols)"

definition ensureSufficientSize :: "GridLayout \<Rightarrow> int \<Rightarrow> int \<Rightarrow> GridLayout option" where
  "ensureSufficientSize l rows columns =
     (let rsf = sufficientStretchFactors (gl_rowStretchFactors l) rows;
          csf = sufficientStretchFactors (gl_columnStretchFactors l) columns;
          cs1 = (if length (gl_cells l) < length rsf
                 then gl_cells l @ replicate (length rsf - length (gl_cells l)) []
                 else gl_cells l);
          cs2 = map (growRow (length csf)) cs1
      in map_option
           (\<lambda>infos. l\<lparr>gl_rowStretchFactors := rsf, gl_columnStretchFactors := csf,
                       gl_widgetBase2Info := infos, gl_cells := cs2\<rparr>)
           (repointInfos cs2 (gl_widgetBase2Info l)))"

definition RowStretchFactor :: "GridLayout \<Rightarrow> int \<Rightarrow> int" where
  "RowStretchFactor l row =
     (if row < 0 then - 1
      else if row \<ge> int (length (gl_rowStretchFactors l)) then 1
      else gl_rowStretchFactors l ! nat row)"

definition ColumnStretchFactor :: "GridLayout \<Rightarrow> int \<Rightarrow> int" where
  "ColumnStretchFactor l column =
     (if column < 0 then - 1
      else if column \<ge> int (length (gl_columnStretchFactors l)) then 1
      else gl_columnStretchFactors l ! nat column)"

text \<open>
  The setters return the error (if any) together with the layout as the call leaves it;
  \<open>None\<close> is a runtime panic. \<^verbatim>\<open>l.container.RequestLayout()\<close> signals the windowing
  system and changes nothing in the grid model.
\<close>

definition SetRowStretchFactor ::
  "GridLayout \<Rightarrow> int \<Rightarrow> int \<Rightarrow> (error option \<times> GridLayout) option" where
  "SetRowStretchFactor l row factor =
     (if row < 0 then Some (Some RowNegative, l)
      else if factor \<noteq> RowStretchFactor l row then
        (if gl_container l = None then Some (Some ContainerRequired, l)
         else if factor < 1 then Some (Some FactorTooSmall, l)
         else (case ensureSufficientSize l (row + 1) (int (length (gl_columnStretchFactors l))) of
                 None \<Rightarrow> None
               | Some l1 \<Rightarrow>
                   if nat row < length (gl_rowStretchFactors l1)
                   then Some (None, l1\<lparr>gl_rowStretchFactors :=
                                          (gl_rowStretchFactors l1)[nat row := factor]\<rparr>)
                   else None))
      else Some (None, l))"

definition SetColumnStretchFactor ::
  "GridLayout \<Rightarrow> int \<Rightarrow> int \<Rightarrow> (error option \<times> GridLayout) option" where
  "SetColumnStretchFactor l column factor =
     (if column < 0 then Some (Some ColumnNegative, l)
      else if factor \<noteq> ColumnStretchFactor l column then
        (if gl_container l = None then Some (Some ContainerRequired, l)
         else if factor < 1 then Some (Some FactorTooSmall, l)
         else (case ensureSufficientSize l (int (length (gl_rowStretchFactors l))) (column + 1) of
                 None \<Rightarrow> None
               | Some l1 \<Rightarrow>
                   if nat column < length (gl_columnStretchFactors l1)
                   then Some (None, l1\<lparr>gl_columnStretchFactors :=
                                          (gl_columnStretchFactors l1)[nat column := factor]\<rparr>)
                   else None))
      else Some (None, l))"

text \<open>
  \<^verbatim>\<open>rangeFromGridLayoutWidgetInfo\<close> dereferences \<^verbatim>\<open>info.cell\<close>; the pointer is nil only
  for an info that was never stored in the map.
\<close>

definition rangeFromGridLayoutWidgetInfo ::
  "gridLayoutCell list list \<Rightarrow> gridLayoutWidgetInfo \<Rightarrow> RectangleGrid option" where
  "rangeFromGridLayoutWidgetInfo cs info =
     (case wi_cell info of
        None \<Rightarrow> None
      | Some p \<Rightarrow>
          if fst p < length cs \<and> snd p < length (cs ! fst p)
          then Some \<lparr>rX = gc_column (cs ! fst p ! snd p), rY = gc_row (cs ! fst p ! snd p),
                     rWidth = wi_spanHorz info, rHeight = wi_spanVert info\<rparr>
          else None)"

text \<open>
  \<^verbatim>\<open>setWidgetOnCells\<close>: the two nested loops visit the rows \<open>Y \<le> row < Y + Height\<close> and
  the columns \<open>X \<le> col < X + Width\<close> and store \<open>wb\<close> in each cell; a cell outside the grid
  is an index panic.
\<close>

primrec setWidgetOnRow ::
  "nat option \<Rightarrow> int list \<Rightarrow> gridLayoutCell list \<Rightarrow> gridLayoutCell list option" where
  "setWidgetOnRow wb [] cols = Some cols"
| "setWidgetOnRow wb (c # cs) cols =
     (if 0 \<le> c \<and> nat c < length cols
      then setWidgetOnRow wb cs (cols[nat c := (cols ! nat c)\<lparr>gc_widgetBase := wb\<rparr>])
      else None)"

primrec setWidgetOnRows ::
  "nat option \<Rightarrow> int list \<Rightarrow> int list \<Rightarrow> gridLayoutCell list list
     \<Rightarrow> gridLayoutCell list list option" where
  "setWidgetOnRows wb [] cs cells = Some cells"
| "setWidgetOnRows wb (r # rs) cs cells =
     (if cs = [] then setWidgetOnRows wb rs cs cells
      else if 0 \<le> r \<and> nat r < length cells
      then (case setWidgetOnRow wb cs (cells ! nat r) of
              None \<Rightarrow> None
            | Some row' \<Rightarrow> setWidgetOnRows wb rs cs (cells[nat r := row']))
      else None)"

definition setWidgetOnCells ::
  "gridLayoutCell list list \<Rightarrow> Widget option \<Rightarrow> RectangleGrid
     \<Rightarrow> gridLayoutCell list list option" where
  "setWidgetOnCells cells widget r =
     setWidgetOnRows (map_option AsWidgetBase widget)
       [rY r .. rY r + rHeight r - 1] [rX r .. rX r + rWidth r - 1] cells"

definition newInfo :: gridLayoutWidgetInfo where
  "newInfo = \<lparr>wi_cell = None, wi_spanHorz = 0, wi_spanVert = 0, wi_minSize = zeroSize\<rparr>"

definition setInfo ::
  "nat \<Rightarrow> gridLayoutWidgetInfo \<Rightarrow> (nat \<times> gridLayoutWidgetInfo) list
     \<Rightarrow> (nat \<times> gridLayoutWidgetInfo) list" where
  "setInfo wb info m =
     (if wb \<in> fst ` set m then map (\<lambda>e. if fst e = wb then (wb, info) else e) m
      else m @ [(wb, info)])"

definition SetRange ::
  "GridLayout \<Rightarrow> Widget option \<Rightarrow> RectangleGrid \<Rightarrow> (error option \<times> GridLayout) option" where
  "SetRange l widget r =
     (case widget of
        None \<Rightarrow> Some (Some WidgetRequired, l)
      | Some w \<Rightarrow>
         (case gl_container l of
            None \<Rightarrow> Some (Some ContainerRequired, l)
          | Some c \<Rightarrow>
             if Handle w \<notin> set (Children c) then Some (Some WidgetMustBeChild, l)
             else if rX r < 0 \<or> rY r < 0 then Some (Some RangeXYNegative, l)
             else if rWidth r < 1 \<or> rHeight r < 1 then Some (Some RangeSizeTooSmall, l)
             else
               (let wb = AsWidgetBase w;
                    old = map_of (gl_widgetBase2Info l) wb;
                    cleared =
                      (case old of
                         None \<Rightarrow> Some (gl_cells l)
                       | Some info \<Rightarrow>
                           (case rangeFromGridLayoutWidgetInfo (gl_cells l) info of
                              None \<Rightarrow> None
                            | Some r0 \<Rightarrow> setWidgetOnCells (gl_cells l) None r0))
                in case cleared of
                     None \<Rightarrow> None
                   | Some cs0 \<Rightarrow>
                      (case ensureSufficientSize (l\<lparr>gl_cells := cs0\<rparr>)
                              (rY r + rHeight r) (rX r + rWidth r) of
                         None \<Rightarrow> None
                       | Some l1 \<Rightarrow>
                          if nat (rY r) < length (gl_cells l1)
                             \<and> nat (rX r) < length (gl_cells l1 ! nat (rY r))
                          then
                            (let cs1 = (gl_cells l1)[nat (rY r) :=
                                         (gl_cells l1 ! nat (rY r))[nat (rX r) :=
                                            (gl_cells l1 ! nat (rY r) ! nat (rX r))
                                              \<lparr>gc_row := rY r, gc_column := rX r\<rparr>]];
                                 info = (case map_of (gl_widgetBase2Info l1) wb of
                                           None \<Rightarrow> newInfo | Some i \<Rightarrow> i);
                                 info' = info\<lparr>wi_cell := Some (nat (rY r), nat (rX r)),
                                              wi_spanHorz := rWidth r, wi_spanVert := rHeight r\<rparr>
                             in case setWidgetOnCells cs1 (Some w) r of
                                  None \<Rightarrow> None
                                | Some cs2 \<Rightarrow>
                                    Some (None, l1\<lparr>gl_widgetBase2Info :=
                                                     setInfo wb info' (gl_widgetBase2Info l1),
                                                   gl_cells := cs2\<rparr>))
                          else None))))"

section \<open>The layout snapshot (\<^verbatim>\<open>gridLayoutItem\<close>)\<close>

text \<open>
  A \<^verbatim>\<open>LayoutItem\<close> is an interface value; the engine only asks it questions, and the
  record below holds the answers: \<open>ident\<close> is the identity of the item (the key of
  \<^verbatim>\<open>item2Info\<close>), \<open>shouldLayout\<close> the result of \<^verbatim>\<open>shouldLayoutItem(item)\<close>,
  \<open>isSpacer\<close> whether its dynamic type is \<^verbatim>\<open>*spacerLayoutItem\<close>, \<open>MaxSize\<close> the field
  \<^verbatim>\<open>Geometry().MaxSize\<close>, \<open>IdealSize\<close> the result of \<^verbatim>\<open>IdealSize()\<close> when the item is an
  \<^verbatim>\<open>IdealSizer\<close>, \<open>HeightForWidth\<close> the method of that name when the item is a
  \<^verbatim>\<open>HeightForWidther\<close> whose \<^verbatim>\<open>HasHeightForWidth()\<close> is true, and \<open>MinSizeEffective\<close>
  the result of \<^verbatim>\<open>li.MinSizeEffectiveForChild(item)\<close>. \<^verbatim>\<open>LayoutFlags\<close> is a bit mask in
  Go; the test \<^verbatim>\<open>flags&GreedyHorz > 0\<close> is membership of the flag.
\<close>

datatype Orientation = Horizontal | Vertical

datatype LayoutFlag =
  ShrinkableHorz | ShrinkableVert | GrowableHorz | GrowableVert | GreedyHorz | GreedyVert

record LayoutItem =
  ident :: nat
  shouldLayout :: bool
  isSpacer :: bool
  LayoutFlags :: "LayoutFlag set"
  MaxSize :: SizePixels
  IdealSize :: "SizePixels option"
  HeightForWidth :: "(Pixel \<Rightarrow> Pixel) option"
  MinSizeEffective :: SizePixels

record gridLayoutItemCell =
  ic_row :: int
  ic_column :: int
  ic_item :: "LayoutItem option"

text \<open>
  \<^verbatim>\<open>gridLayoutItemInfo.cell\<close> points into the cells of the snapshot, which are never
  written after the snapshot is built, and only the \<^verbatim>\<open>row\<close> and \<^verbatim>\<open>column\<close> fields
  of the cell are read through it: the pointer is modelled by these two values, \<open>None\<close>
  being nil.
\<close>

record gridLayoutItemInfo =
  ii_cell :: "(int \<times> int) option"
  ii_spanHorz :: int
  ii_spanVert :: int
  ii_minSize :: SizePixels

record Margins =
  HNear :: int
  VNear :: int
  HFar :: int
  VFar :: int

text \<open>
  \<open>li_marginsPixels\<close> and \<open>li_spacingPixels\<close> are the values of
  \<^verbatim>\<open>MarginsFrom96DPI(li.margins, li.ctx.dpi)\<close> and \<^verbatim>\<open>IntFrom96DPI(li.spacing, li.ctx.dpi)\<close>;
  the two conversion functions are outside the excerpt, and the engine uses nothing else
  of the margins, the spacing and the DPI.
\<close>

record gridLayoutItem =
  li_size2MinSize :: "SizePixels \<rightharpoonup> SizePixels"
  li_rowStretchFactors :: "int list"
  li_columnStretchFactors :: "int list"
  li_item2Info :: "nat \<rightharpoonup> gridLayoutItemInfo"
  li_cells :: "gridLayoutItemCell list list"
  li_marginsPixels :: Margins
  li_spacingPixels :: int

record gridLayoutSectionInfo =
  index :: nat
  minSize :: Pixel
  maxSize :: Pixel
  stretch :: int
  hasGreedyNonSpacer :: bool
  hasGreedySpacer :: bool

subsection \<open>\<^verbatim>\<open>spannedWidth\<close>\<close>

primrec spanSum :: "Pixel \<Rightarrow> int \<Rightarrow> Pixel list \<Rightarrow> int list \<Rightarrow> Pixel \<Rightarrow> Pixel option" where
  "spanSum spacingPixels first sizes [] acc = Some acc"
| "spanSum spacingPixels first sizes (i # is) acc =
     (if 0 \<le> i \<and> nat i < length sizes then
        (let w = sizes ! nat i
         in spanSum spacingPixels first sizes is
              (if w > 0 then (if i > first then acc + w + spacingPixels else acc + w) else acc))
      else None)"

definition spannedWidth :: "gridLayoutItem \<Rightarrow> gridLayoutItemInfo \<Rightarrow> Pixel list \<Rightarrow> Pixel option" where
  "spannedWidth li info widths =
     (case ii_cell info of
        None \<Rightarrow> None
      | Some p \<Rightarrow> spanSum (li_spacingPixels li) (snd p) widths
                    [snd p .. snd p + ii_spanHorz info - 1] 0)"

subsection \<open>\<^verbatim>\<open>sectionSizesForSpace\<close>: the scan of the sections\<close>

definition stretchFactorsOf :: "gridLayoutItem \<Rightarrow> Orientation \<Rightarrow> int list" where
  "stretchFactorsOf li orientation =
     (case orientation of
        Horizontal \<Rightarrow> li_columnStretchFactors li
      | Vertical \<Rightarrow> li_rowStretchFactors li)"

definition otherAxisCount :: "gridLayoutItem \<Rightarrow> Orientation \<Rightarrow> nat" where
  "otherAxisCount li orientation =
     (case orientation of
        Horizontal \<Rightarrow> length (li_rowStretchFactors li)
      | Vertical \<Rightarrow> length (li_columnStretchFactors li))"

text \<open>\<^verbatim>\<open>li.cells[row][col].item\<close>; \<open>None\<close> is the index panic, \<open>Some None\<close> a nil item.\<close>

definition cellItem :: "gridLayoutItem \<Rightarrow> nat \<Rightarrow> nat \<Rightarrow> LayoutItem option option" where
  "cellItem li row col =
     (if row < length (li_cells li) \<and> col < length (li_cells li ! row)
      then Some (ic_item (li_cells li ! row ! col))
      else None)"

text \<open>
  \<^verbatim>\<open>pref\<close>: the ideal size of an item that has no height-for-width behaviour and is an
  \<^verbatim>\<open>IdealSizer\<close>, the zero size otherwise.
\<close>

definition itemPref :: "LayoutItem \<Rightarrow> SizePixels" where
  "itemPref item =
     (case HeightForWidth item of
        Some hfw \<Rightarrow> zeroSize
      | None \<Rightarrow> (case IdealSize item of Some s \<Rightarrow> s | None \<Rightarrow> zeroSize))"

text \<open>
  The body of the inner loop for one laid-out item, on the horizontal and on the vertical
  axis. The section record accumulates \<^verbatim>\<open>minSizes[i]\<close>, \<^verbatim>\<open>maxSizes[i]\<close> and the two
  flags of \<^verbatim>\<open>sortedSections[i]\<close>.
\<close>

definition visitHorz ::
  "LayoutItem \<Rightarrow> gridLayoutItemInfo \<Rightarrow> gridLayoutSectionInfo \<Rightarrow> gridLayoutSectionInfo" where
  "visitHorz item info s =
     (let s1 = (if ii_spanHorz info = 1
                then s\<lparr>minSize := maxPixel (minSize s) (Width (MinSizeEffective item))\<rparr>
                else s);
          s2 = (if Width (MaxSize item) > 0
                then s1\<lparr>maxSize := maxPixel (maxSize s1) (Width (MaxSize item))\<rparr>
                else if Width (itemPref item) > 0 \<and> GrowableHorz \<notin> LayoutFlags item
                then s1\<lparr>maxSize := maxPixel (maxSize s1) (Width (itemPref item))\<rparr>
                else s1\<lparr>maxSize := 32768\<rparr>)
      in if ii_spanHorz info = 1 \<and> GreedyHorz \<in> LayoutFlags item
         then (if isSpacer item then s2\<lparr>hasGreedySpacer := True\<rparr>
               else s2\<lparr>hasGreedyNonSpacer := True\<rparr>)
         else s2)"

definition vertMinSize ::
  "gridLayoutItem \<Rightarrow> Pixel list \<Rightarrow> LayoutItem \<Rightarrow> gridLayoutItemInfo \<Rightarrow> gridLayoutSectionInfo
     \<Rightarrow> gridLayoutSectionInfo option" where
  "vertMinSize li widths item info s =
     (if ii_spanVert info = 1
      then (case HeightForWidth item of
              Some hfw \<Rightarrow>
                map_option (\<lambda>w. s\<lparr>minSize := maxPixel (minSize s) (hfw w)\<rparr>)
                  (spannedWidth li info widths)
            | None \<Rightarrow>
                Some (s\<lparr>minSize := maxPixel (minSize s) (Height (MinSizeEffective item))\<rparr>))
      else Some s)"

definition vertMaxSizeAndFlags ::
  "LayoutItem \<Rightarrow> gridLayoutItemInfo \<Rightarrow> gridLayoutSectionInfo \<Rightarrow> gridLayoutSectionInfo" where
  "vertMaxSizeAndFlags item info s1 =
     (let s2 = (if Height (MaxSize item) > 0
                then s1\<lparr>maxSize := maxPixel (maxSize s1) (Height (MaxSize item))\<rparr>
                else if (case HeightForWidth item of Some hfw \<Rightarrow> True | None \<Rightarrow> False)
                        \<and> GrowableVert \<notin> LayoutFlags item
                then s1\<lparr>maxSize := minSize s1\<rparr>
                else if Height (itemPref item) > 0 \<and> GrowableVert \<notin> LayoutFlags item
                then s1\<lparr>maxSize := maxPixel (maxSize s1) (Height (itemPref item))\<rparr>
                else s1\<lparr>maxSize := 32768\<rparr>)
      in if ii_spanVert info = 1 \<and> GreedyVert \<in> LayoutFlags item
         then (if isSpacer item then s2\<lparr>hasGreedySpacer := True\<rparr>
               else s2\<lparr>hasGreedyNonSpacer := True\<rparr>)
         else s2)"

text \<open>
  On the vertical axis the minimum size may call \<^verbatim>\<open>spannedWidth\<close>, which can panic; the
  statements after it (\<open>vertMaxSizeAndFlags\<close>) cannot.
\<close>

definition visitVert ::
  "gridLayoutItem \<Rightarrow> Pixel list \<Rightarrow> LayoutItem \<Rightarrow> gridLayoutItemInfo \<Rightarrow> gridLayoutSectionInfo
     \<Rightarrow> gridLayoutSectionInfo option" where
  "visitVert li widths item info s =
     map_option (vertMaxSizeAndFlags item info) (vertMinSize li widths item info s)"

text \<open>
  One iteration of the inner loop (\<open>i\<close> the section, \<open>j\<close> the position on the other axis):
  nil items and items that are not laid out are skipped; \<^verbatim>\<open>li.item2Info[item]\<close> yields
  nil for an unknown item, and the first use of \<^verbatim>\<open>info\<close> then panics.
\<close>

definition visitCell ::
  "gridLayoutItem \<Rightarrow> Orientation \<Rightarrow> Pixel list \<Rightarrow> nat \<Rightarrow> nat \<Rightarrow> gridLayoutSectionInfo
     \<Rightarrow> gridLayoutSectionInfo option" where
  "visitCell li orientation widths i j s =
     (case (case orientation of Horizontal \<Rightarrow> cellItem li j i | Vertical \<Rightarrow> cellItem li i j) of
        None \<Rightarrow> None
      | Some None \<Rightarrow> Some s
      | Some (Some item) \<Rightarrow>
          if \<not> shouldLayout item then Some s
          else (case li_item2Info li (ident item) of
                  None \<Rightarrow> None
                | Some info \<Rightarrow>
                    (case orientation of
                       Horizontal \<Rightarrow> Some (visitHorz item info s)
                     | Vertical \<Rightarrow> visitVert li widths item info s)))"

primrec scanSection ::
  "gridLayoutItem \<Rightarrow> Orientation \<Rightarrow> Pixel list \<Rightarrow> nat \<Rightarrow> nat list \<Rightarrow> gridLayoutSectionInfo
     \<Rightarrow> gridLayoutSectionInfo option" where
  "scanSection li orientation widths i [] s = Some s"
| "scanSection li orientation widths i (j # js) s =
     (case visitCell li orientation widths i j s of
        None \<Rightarrow> None
      | Some s' \<Rightarrow> scanSection li orientation widths i js s')"

text \<open>
  \<^verbatim>\<open>sortedSections[i]\<close> after the outer loop body for section \<open>i\<close>. The index and the
  effective stretch factor \<^verbatim>\<open>maxi(1, stretchFactors[i])\<close> do not depend on the scan.
\<close>

definition sectionInfo ::
  "gridLayoutItem \<Rightarrow> Orientation \<Rightarrow> Pixel list \<Rightarrow> nat \<Rightarrow> gridLayoutSectionInfo option" where
  "sectionInfo li orientation widths i =
     scanSection li orientation widths i [0 ..< otherAxisCount li orientation]
       \<lparr>index = i, minSize = 0, maxSize = 0,
        stretch = maxi 1 (stretchFactorsOf li orientation ! i),
        hasGreedyNonSpacer = False, hasGreedySpacer = False\<rparr>"

primrec sectionInfosFrom ::
  "gridLayoutItem \<Rightarrow> Orientation \<Rightarrow> Pixel list \<Rightarrow> nat list \<Rightarrow> gridLayoutSectionInfo list option"
  where
  "sectionInfosFrom li orientation widths [] = Some []"
| "sectionInfosFrom li orientation widths (i # is) =
     (case sectionInfo li orientation widths i of
        None \<Rightarrow> None
      | Some s \<Rightarrow> map_option ((#) s) (sectionInfosFrom li orientation widths is))"

definition sectionInfos ::
  "gridLayoutItem \<Rightarrow> Orientation \<Rightarrow> Pixel list \<Rightarrow> gridLayoutSectionInfo list option" where
  "sectionInfos li orientation widths =
     sectionInfosFrom li orientation widths [0 ..< length (stretchFactorsOf li orientation)]"

subsection \<open>\<^verbatim>\<open>sectionSizesForSpace\<close>: the order of the sections\<close>

text \<open>
  \<^verbatim>\<open>gridLayoutSectionInfoList.Less\<close>. Go's integer division truncates towards zero
  (\<open>sdiv\<close>); \<open>stretch\<close> is \<^verbatim>\<open>maxi(1, _)\<close>, never 0, so the division cannot panic.
\<close>

definition Less :: "gridLayoutSectionInfo \<Rightarrow> gridLayoutSectionInfo \<Rightarrow> bool" where
  "Less a b =
     (if hasGreedyNonSpacer a = hasGreedyNonSpacer b then
        (if hasGreedySpacer a = hasGreedySpacer b then
           (let minDiff = minSize a - minSize b
            in if minDiff = 0 then maxSize a sdiv stretch a < maxSize b sdiv stretch b
               else minDiff > 0)
         else hasGreedySpacer a)
      else hasGreedyNonSpacer a)"

text \<open>
  \<^verbatim>\<open>sort.Stable\<close> belongs to Go's standard library. \<^verbatim>\<open>Less\<close> compares keys
  lexicographically, and for such a comparison every stable sorting algorithm returns the
  same list; it is modelled by insertion sort, which moves an element past those strictly
  less than it only.
\<close>

primrec insertStable :: "('a \<Rightarrow> 'a \<Rightarrow> bool) \<Rightarrow> 'a \<Rightarrow> 'a list \<Rightarrow> 'a list" where
  "insertStable lt x [] = [x]"
| "insertStable lt x (y # ys) =
     (if lt y x then y # insertStable lt x ys else x # y # ys)"

definition sortStable :: "('a \<Rightarrow> 'a \<Rightarrow> bool) \<Rightarrow> 'a list \<Rightarrow> 'a list" where
  "sortStable lt xs = foldr (insertStable lt) xs []"

text \<open>
  The tier of a section as the \<^verbatim>\<open>if ... else if ... else\<close> chain at the end of the outer
  loop body decides it: 0 with a greedy non-spacer, else 1 with a greedy spacer, else 2.
\<close>

definition tierOf :: "gridLayoutSectionInfo \<Rightarrow> nat" where
  "tierOf s = (if hasGreedyNonSpacer s then 0 else if hasGreedySpacer s then 1 else 2)"

definition sectionCountWithGreedyNonSpacer :: "gridLayoutSectionInfo list \<Rightarrow> nat" where
  "sectionCountWithGreedyNonSpacer secs = length (filter (\<lambda>s. tierOf s = 0) secs)"

definition sectionCountWithGreedySpacer :: "gridLayoutSectionInfo list \<Rightarrow> nat" where
  "sectionCountWithGreedySpacer secs = length (filter (\<lambda>s. tierOf s = 1) secs)"

definition stretchFactorsTotal :: "int list \<Rightarrow> gridLayoutSectionInfo list \<Rightarrow> nat \<Rightarrow> int" where
  "stretchFactorsTotal stretchFactors secs t =
     sum_list (map (\<lambda>s. stretchFactors ! index s) (filter (\<lambda>s. tierOf s = t) secs))"

definition offsets :: "gridLayoutSectionInfo list \<Rightarrow> nat \<Rightarrow> nat" where
  "offsets secs t =
     [0, sectionCountWithGreedyNonSpacer secs,
      sectionCountWithGreedyNonSpacer secs + sectionCountWithGreedySpacer secs] ! t"

definition counts :: "gridLayoutSectionInfo list \<Rightarrow> nat \<Rightarrow> nat" where
  "counts secs t =
     [sectionCountWithGreedyNonSpacer secs, sectionCountWithGreedySpacer secs,
      length secs - sectionCountWithGreedyNonSpacer secs - sectionCountWithGreedySpacer secs] ! t"

text \<open>
  The sections the inner loop of tier \<open>t\<close> visits, in order:
  \<^verbatim>\<open>sortedSections[offsets[t]+j]\<close> for \<open>j < counts[t]\<close>.
\<close>

definition tierSections :: "gridLayoutSectionInfo list \<Rightarrow> nat \<Rightarrow> gridLayoutSectionInfo list" where
  "tierSections secs t =
     map (\<lambda>j. sortStable Less secs ! (offsets secs t + j)) [0 ..< counts secs t]"

definition assignmentOrder :: "gridLayoutSectionInfo list \<Rightarrow> gridLayoutSectionInfo list" where
  "assignmentOrder secs = tierSections secs 0 @ tierSections secs 1 @ tierSections secs 2"

subsection \<open>\<^verbatim>\<open>sectionSizesForSpace\<close>: the distribution of the space\<close>

text \<open>
  \<^verbatim>\<open>Pixel(excessSpace * float64(stretch) / float64(stretchFactorsRemaining))\<close>. The
  conversion to \<^verbatim>\<open>Pixel\<close> truncates towards zero. When the product and the divisor are
  below \<open>2\<^sup>5\<^sup>3\<close> in absolute value, both are float64 values, the float64 quotient is the
  correctly rounded exact quotient, and rounding cannot reach the next integer, so the
  result is the truncated exact quotient. Outside that range, and for a zero divisor
  (whose infinite or NaN quotient Go converts in an implementation-specific way), the
  model gives \<open>None\<close>.
\<close>

definition floatShare :: "int \<Rightarrow> int \<Rightarrow> int \<Rightarrow> int option" where
  "floatShare excessSpace factor stretchFactorsRemaining =
     (if stretchFactorsRemaining = 0 \<or> \<bar>stretchFactorsRemaining\<bar> \<ge> 2 ^ 53
         \<or> \<bar>excessSpace * factor\<bar> \<ge> 2 ^ 53
      then None
      else Some ((excessSpace * factor) sdiv stretchFactorsRemaining))"

record distState =
  ds_space :: Pixel
  ds_minSizesRemaining :: Pixel
  ds_spacingRemaining :: Pixel
  ds_stretchFactorsRemaining :: int
  ds_sizes :: "Pixel list"

text \<open>The size of the section: the statements from \<^verbatim>\<open>size := min\<close> to the clamping.\<close>

definition sectionSize :: "int \<Rightarrow> gridLayoutSectionInfo \<Rightarrow> distState \<Rightarrow> Pixel option" where
  "sectionSize factor info st =
     (if minSize info < maxSize info then
        map_option
          (\<lambda>share. let sz = minSize info + share
                    in if sz < minSize info then minSize info
                       else if sz > maxSize info then maxSize info
                       else sz)
          (floatShare (ds_space st - ds_minSizesRemaining st - ds_spacingRemaining st) factor
             (ds_stretchFactorsRemaining st))
      else Some (minSize info))"

text \<open>The body of the innermost loop of the distribution.\<close>

definition assignSection ::
  "int list \<Rightarrow> Pixel \<Rightarrow> gridLayoutSectionInfo \<Rightarrow> distState \<Rightarrow> distState option" where
  "assignSection stretchFactors spacingPixels info st =
     (let k = index info in
      if k < length stretchFactors \<and> k < length (ds_sizes st) then
        (case sectionSize (stretchFactors ! k) info st of
           None \<Rightarrow> None
         | Some sz \<Rightarrow>
             Some \<lparr>ds_space = ds_space st - (sz + spacingPixels),
                   ds_minSizesRemaining = ds_minSizesRemaining st - minSize info,
                   ds_spacingRemaining = ds_spacingRemaining st - spacingPixels,
                   ds_stretchFactorsRemaining = ds_stretchFactorsRemaining st - stretchFactors ! k,
                   ds_sizes = (ds_sizes st)[k := sz]\<rparr>)
      else None)"

primrec assignSections ::
  "int list \<Rightarrow> Pixel \<Rightarrow> gridLayoutSectionInfo list \<Rightarrow> distState \<Rightarrow> distState option" where
  "assignSections stretchFactors spacingPixels [] st = Some st"
| "assignSections stretchFactors spacingPixels (info # infos) st =
     (case assignSection stretchFactors spacingPixels info st of
        None \<Rightarrow> None
      | Some st' \<Rightarrow> assignSections stretchFactors spacingPixels infos st')"

primrec assignTiers ::
  "int list \<Rightarrow> Pixel \<Rightarrow> gridLayoutSectionInfo list \<Rightarrow> nat list \<Rightarrow> distState \<Rightarrow> distState option"
  where
  "assignTiers stretchFactors spacingPixels secs [] st = Some st"
| "assignTiers stretchFactors spacingPixels secs (t # ts) st =
     (case assignSections stretchFactors spacingPixels (tierSections secs t)
             (st\<lparr>ds_stretchFactorsRemaining := stretchFactorsTotal stretchFactors secs t\<rparr>) of
        None \<Rightarrow> None
      | Some st' \<Rightarrow> assignTiers stretchFactors spacingPixels secs ts st')"

definition spacingRemainingInit :: "Pixel \<Rightarrow> gridLayoutSectionInfo list \<Rightarrow> Pixel" where
  "spacingRemainingInit spacingPixels secs =
     (let total = sum_list (map (\<lambda>s. if maxSize s > 0 then spacingPixels else 0) secs)
      in if total > 0 then total - spacingPixels else total)"

definition marginsOf :: "gridLayoutItem \<Rightarrow> Orientation \<Rightarrow> Pixel" where
  "marginsOf li orientation =
     (case orientation of
        Horizontal \<Rightarrow> HNear (li_marginsPixels li) + HFar (li_marginsPixels li)
      | Vertical \<Rightarrow> VNear (li_marginsPixels li) + VFar (li_marginsPixels li))"

definition distributeSpace ::
  "int list \<Rightarrow> Pixel \<Rightarrow> Pixel \<Rightarrow> gridLayoutSectionInfo list \<Rightarrow> Pixel list option" where
  "distributeSpace stretchFactors spacingPixels space secs =
     map_option ds_sizes
       (assignTiers stretchFactors spacingPixels secs [0, 1, 2]
          \<lparr>ds_space = space,
           ds_minSizesRemaining = sum_list (map minSize secs),
           ds_spacingRemaining = spacingRemainingInit spacingPixels secs,
           ds_stretchFactorsRemaining = 0,
           ds_sizes = replicate (length stretchFactors) 0\<rparr>)"

definition sectionSizesForSpace ::
  "gridLayoutItem \<Rightarrow> Orientation \<Rightarrow> Pixel \<Rightarrow> Pixel list \<Rightarrow> Pixel list option" where
  "sectionSizesForSpace li orientation space widths =
     (case sectionInfos li orientation widths of
        None \<Rightarrow> None
      | Some secs \<Rightarrow>
          distributeSpace (stretchFactorsOf li orientation) (li_spacingPixels li)
            (space - marginsOf li orientation) secs)"

subsection \<open>\<^verbatim>\<open>MinSizeForSize\<close>\<close>

text \<open>
  The first pair of loops of \<^verbatim>\<open>MinSizeForSize\<close>: \<^verbatim>\<open>ws[col]\<close> becomes the largest
  effective minimum width of the laid-out items of horizontal span 1 in column \<open>col\<close>.
\<close>

primrec wsRow :: "gridLayoutItem \<Rightarrow> nat \<Rightarrow> nat list \<Rightarrow> Pixel list \<Rightarrow> Pixel list option" where
  "wsRow li row [] ws = Some ws"
| "wsRow li row (col # cols) ws =
     (case cellItem li row col of
        None \<Rightarrow> None
      | Some None \<Rightarrow> wsRow li row cols ws
      | Some (Some item) \<Rightarrow>
          if \<not> shouldLayout item then wsRow li row cols ws
          else (case li_item2Info li (ident item) of
                  None \<Rightarrow> None
                | Some info \<Rightarrow>
                    wsRow li row cols
                      (if ii_spanHorz info = 1
                       then ws[col := maxPixel (ws ! col) (Width (MinSizeEffective item))]
                       else ws)))"

primrec wsRows :: "gridLayoutItem \<Rightarrow> nat list \<Rightarrow> Pixel list \<Rightarrow> Pixel list option" where
  "wsRows li [] ws = Some ws"
| "wsRows li (row # rows) ws =
     (case wsRow li row [0 ..< length ws] ws of
        None \<Rightarrow> None
      | Some ws' \<Rightarrow> wsRows li rows ws')"

text \<open>\<^verbatim>\<open>len(li.cells[0])\<close> is evaluated only after the test \<^verbatim>\<open>len(li.cells) == 0\<close>.\<close>

definition minWidths :: "gridLayoutItem \<Rightarrow> Pixel list option" where
  "minWidths li =
     (case li_cells li of
        [] \<Rightarrow> None
      | row0 # rest \<Rightarrow> wsRows li [0 ..< length (li_cells li)] (replicate (length row0) 0))"

text \<open>
  The loop over the rows: \<^verbatim>\<open>heights[row]\<close> is overwritten with the largest height asked
  for by the laid-out items of vertical span 1 in the row. The source evaluates the
  height-for-width items of a row in goroutines joined by a wait group before the row is
  finished; each only contributes to a maximum taken under a mutex, so the result is that
  of the sequential loop.
\<close>

primrec rowMaxHeight ::
  "gridLayoutItem \<Rightarrow> Pixel list \<Rightarrow> nat \<Rightarrow> nat list \<Rightarrow> Pixel \<Rightarrow> Pixel option" where
  "rowMaxHeight li widths row [] maxHeight = Some maxHeight"
| "rowMaxHeight li widths row (col # cols) maxHeight =
     (case cellItem li row col of
        None \<Rightarrow> None
      | Some None \<Rightarrow> rowMaxHeight li widths row cols maxHeight
      | Some (Some item) \<Rightarrow>
          if \<not> shouldLayout item then rowMaxHeight li widths row cols maxHeight
          else (case li_item2Info li (ident item) of
                  None \<Rightarrow> None
                | Some info \<Rightarrow>
                    if ii_spanVert info = 1 then
                      (case HeightForWidth item of
                         Some hfw \<Rightarrow>
                           (case spannedWidth li info widths of
                              None \<Rightarrow> None
                            | Some w \<Rightarrow>
                                rowMaxHeight li widths row cols (maxPixel maxHeight (hfw w)))
                       | None \<Rightarrow>
                           rowMaxHeight li widths row cols
                             (maxPixel maxHeight (Height (MinSizeEffective item))))
                    else rowMaxHeight li widths row cols maxHeight))"

primrec rowHeights :: "gridLayoutItem \<Rightarrow> Pixel list \<Rightarrow> nat list \<Rightarrow> Pixel list option" where
  "rowHeights li widths [] = Some []"
| "rowHeights li widths (row # rows) =
     (case rowMaxHeight li widths row [0 ..< length widths] 0 of
        None \<Rightarrow> None
      | Some h \<Rightarrow> map_option ((#) h) (rowHeights li widths rows))"

text \<open>
  The two summing loops: \<^verbatim>\<open>for i, w := range ws { if w > 0 { if i > 0 { width +=
  spacingPixels }; width += w } }\<close>, started at index \<open>i\<close> with the sum \<open>acc\<close>.
\<close>

primrec addSections :: "Pixel \<Rightarrow> nat \<Rightarrow> Pixel list \<Rightarrow> Pixel \<Rightarrow> Pixel" where
  "addSections spacingPixels i [] acc = acc"
| "addSections spacingPixels i (w # ws) acc =
     addSections spacingPixels (Suc i) ws
       (if w > 0 then (if i > 0 then acc + spacingPixels else acc) + w else acc)"

text \<open>
  \<^verbatim>\<open>MinSizeForSize\<close> returns the size and the snapshot with its cache as the call leaves
  it. The mutex only serialises calls and is not modelled.
\<close>

definition MinSizeForSize ::
  "gridLayoutItem \<Rightarrow> SizePixels \<Rightarrow> (SizePixels \<times> gridLayoutItem) option" where
  "MinSizeForSize li sz =
     (if li_cells li = [] then Some (zeroSize, li)
      else
        (case li_size2MinSize li sz of
           Some m \<Rightarrow> Some (m, li)
         | None \<Rightarrow>
            (case minWidths li of
               None \<Rightarrow> None
             | Some ws \<Rightarrow>
                (case sectionSizesForSpace li Horizontal (Width sz) [] of
                   None \<Rightarrow> None
                 | Some widths \<Rightarrow>
                    (case sectionSizesForSpace li Vertical (Height sz) widths of
                       None \<Rightarrow> None
                     | Some heights0 \<Rightarrow>
                        (case rowHeights li widths [0 ..< length heights0] of
                           None \<Rightarrow> None
                         | Some heights \<Rightarrow>
                            (let width = addSections (li_spacingPixels li) 0 ws
                                           (HNear (li_marginsPixels li) + HFar (li_marginsPixels li));
                                 height = addSections (li_spacingPixels li) 0 heights
                                            (VNear (li_marginsPixels li) + VFar (li_marginsPixels li));
                                 r = \<lparr>Width = width, Height = height\<rparr>
                             in Some (r, if width > 0 \<and> height > 0
                                         then li\<lparr>li_size2MinSize := (li_size2MinSize li)(sz \<mapsto> r)\<rparr>
                                         else li))))))))"

subsection \<open>\<^verbatim>\<open>CreateLayoutItem\<close>\<close>

text \<open>
  \<^verbatim>\<open>createLayoutItemForWidgetWithContext\<close> is outside the excerpt: \<open>mk wb\<close> stands for the
  layout item it creates for the widget of widget base \<open>wb\<close>. \<^verbatim>\<open>wb2Item\<close> makes every
  cell of one widget share one item, whose identity is that of the widget base. The
  margins and the spacing in pixels are parameters, as in the snapshot.
\<close>

definition snapshotCell :: "(nat \<Rightarrow> LayoutItem) \<Rightarrow> nat \<Rightarrow> nat \<times> gridLayoutCell \<Rightarrow> gridLayoutItemCell" where
  "snapshotCell mk row c =
     \<lparr>ic_row = int row, ic_column = int (fst c),
      ic_item = map_option (\<lambda>wb. (mk wb)\<lparr>ident := wb\<rparr>) (gc_widgetBase (snd c))\<rparr>"

definition snapshotCells ::
  "(nat \<Rightarrow> LayoutItem) \<Rightarrow> gridLayoutCell list list \<Rightarrow> gridLayoutItemCell list list" where
  "snapshotCells mk cs =
     map (\<lambda>r. map (snapshotCell mk (fst r)) (enumerate 0 (snd r))) (enumerate 0 cs)"

definition cellWidgets :: "gridLayoutCell list list \<Rightarrow> nat list" where
  "cellWidgets cs = List.map_filter gc_widgetBase (concat cs)"

text \<open>
  The loop over \<^verbatim>\<open>l.widgetBase2Info\<close>. The info of a widget that occupies no cell is
  stored under the nil item, which no lookup asks for; it is left out.
  \<^verbatim>\<open>&cells[info.cell.row][info.cell.column]\<close> panics outside the grid.
\<close>

primrec snapshotInfos ::
  "gridLayoutCell list list \<Rightarrow> (nat \<times> gridLayoutWidgetInfo) list
     \<Rightarrow> (nat \<rightharpoonup> gridLayoutItemInfo) option" where
  "snapshotInfos cs [] = Some Map.empty"
| "snapshotInfos cs (e # es) =
     (case (case wi_cell (snd e) of
              None \<Rightarrow> Some None
            | Some p \<Rightarrow>
                if fst p < length cs \<and> snd p < length (cs ! fst p) then
                  (let r = gc_row (cs ! fst p ! snd p); c = gc_column (cs ! fst p ! snd p)
                   in if 0 \<le> r \<and> nat r < length cs \<and> 0 \<le> c \<and> nat c < length (cs ! nat r)
                      then Some (Some (r, c)) else None)
                else None) of
        None \<Rightarrow> None
      | Some cell \<Rightarrow>
          map_option
            (\<lambda>m. if fst e \<in> set (cellWidgets cs)
                  then m(fst e \<mapsto> \<lparr>ii_cell = cell, ii_spanHorz = wi_spanHorz (snd e),
                                     ii_spanVert = wi_spanVert (snd e),
                                     ii_minSize = wi_minSize (snd e)\<rparr>)
                  else m)
            (snapshotInfos cs es))"

definition CreateLayoutItem ::
  "GridLayout \<Rightarrow> (nat \<Rightarrow> LayoutItem) \<Rightarrow> Margins \<Rightarrow> Pixel \<Rightarrow> gridLayoutItem option" where
  "CreateLayoutItem l mk marginsPixels spacingPixels =
     map_option
       (\<lambda>infos. \<lparr>li_size2MinSize = Map.empty,
                  li_rowStretchFactors = gl_rowStretchFactors l,
                  li_columnStretchFactors = gl_columnStretchFactors l,
                  li_item2Info = infos,
                  li_cells = snapshotCells mk (gl_cells l),
                  li_marginsPixels = marginsPixels,
                  li_spacingPixels = spacingPixels\<rparr>)
       (snapshotInfos (gl_cells l) (gl_widgetBase2Info l))"

section \<open>The image view (\<^verbatim>\<open>ImageView.drawImage\<close>)\<close>

datatype ImageViewMode =
  ImageViewModeIdeal
  | ImageViewModeCorner
  | ImageViewModeCenter
  | ImageViewModeShrink
  | ImageViewModeZoom
  | ImageViewModeStretch

record RectanglePixels =
  rpX :: Pixel
  rpY :: Pixel
  rpWidth :: Pixel
  rpHeight :: Pixel

record PointPixels =
  ppX :: Pixel
  ppY :: Pixel

text \<open>
  What \<^verbatim>\<open>drawImage\<close> reads of the view: the mode, the client bounds in pixels
  (\<^verbatim>\<open>ClientBoundsPixels()\<close>), \<open>iv_margin\<close>, the value of
  \<^verbatim>\<open>IntFrom96DPI(iv.margin96dpi, dpi)\<close>, and \<open>iv_imageSize\<close>, the value of
  \<^verbatim>\<open>SizeFrom96DPI(iv.image.Size(), dpi)\<close>, \<open>None\<close> for a nil image. The conversion
  functions are outside the excerpt; at 96 DPI the pixel values are the 96-DPI values.
\<close>

record ImageView =
  iv_mode :: ImageViewMode
  iv_clientBounds :: RectanglePixels
  iv_margin :: Pixel
  iv_imageSize :: "SizePixels option"

text \<open>
  What \<^verbatim>\<open>drawImage\<close> asks of the canvas: nothing, \<^verbatim>\<open>DrawImageStretchedPixels\<close> with the
  bounds, or \<^verbatim>\<open>DrawImagePixels\<close> at a position, after \<^verbatim>\<open>IntersectClipRect\<close> with the
  given left, top, right and bottom in the corner and center modes.
\<close>

datatype drawing =
  NoDrawing
  | DrawImageStretchedPixels RectanglePixels
  | DrawImagePixels "(Pixel \<times> Pixel \<times> Pixel \<times> Pixel) option" PointPixels

text \<open>
  The conversion \<^verbatim>\<open>Pixel(x)\<close> of a float64 truncates towards zero. float64 values are
  modelled by real numbers: the model is exact where every intermediate value is a
  float64, as for the quotients 1/2 and 1 of the example below, and it gives \<open>None\<close>
  where the source divides by zero.
\<close>

definition truncPixel :: "real \<Rightarrow> Pixel" where
  "truncPixel x = (if x \<ge> 0 then \<lfloor>x\<rfloor> else \<lceil>x\<rceil>)"

definition imageScale :: "ImageViewMode \<Rightarrow> SizePixels \<Rightarrow> SizePixels \<Rightarrow> real option" where
  "imageScale mode cb s =
     (if mode = ImageViewModeZoom \<or> Width s > Width cb \<or> Height s > Height cb then
        (if Width s = 0 \<or> Height s = 0 then None
         else Some (min (real_of_int (Width cb) / real_of_int (Width s))
                        (real_of_int (Height cb) / real_of_int (Height s))))
      else Some 1)"

definition drawImage :: "ImageView \<Rightarrow> drawing option" where
  "drawImage iv =
     (case iv_imageSize iv of
        None \<Rightarrow> Some NoDrawing
      | Some s \<Rightarrow>
          (let margin = iv_margin iv;
               cb = \<lparr>Width = rpWidth (iv_clientBounds iv) - margin * 2,
                     Height = rpHeight (iv_clientBounds iv) - margin * 2\<rparr>
           in if iv_mode iv = ImageViewModeShrink \<or> iv_mode iv = ImageViewModeZoom
                 \<or> iv_mode iv = ImageViewModeStretch then
                (if iv_mode iv = ImageViewModeStretch then
                   Some (DrawImageStretchedPixels
                           \<lparr>rpX = margin, rpY = margin, rpWidth = Width cb, rpHeight = Height cb\<rparr>)
                 else
                   (case imageScale (iv_mode iv) cb s of
                      None \<Rightarrow> None
                    | Some scale \<Rightarrow>
                        (let w = truncPixel (real_of_int (Width s) * scale);
                             h = truncPixel (real_of_int (Height s) * scale)
                         in Some (DrawImageStretchedPixels
                                    \<lparr>rpX = margin + (Width cb - w) sdiv 2,
                                     rpY = margin + (Height cb - h) sdiv 2,
                                     rpWidth = w, rpHeight = h\<rparr>))))
              else
                (let clip = (if iv_mode iv = ImageViewModeCorner \<or> iv_mode iv = ImageViewModeCenter
                             then Some (margin, margin, Width cb + margin, Height cb + margin)
                             else None);
                     pos = (if iv_mode iv = ImageViewModeIdeal \<or> iv_mode iv = ImageViewModeCorner
                            then \<lparr>ppX = margin, ppY = margin\<rparr>
                            else if iv_mode iv = ImageViewModeCenter
                            then \<lparr>ppX = margin + (Width cb - Width s) sdiv 2,
                                  ppY = margin + (Height cb - Height s) sdiv 2\<rparr>
                            else \<lparr>ppX = 0, ppY = 0\<rparr>)
                 in Some (DrawImagePixels clip pos))))"

section \<open>Notions for stating the properties\<close>

text \<open>
  The definitions of this section are not part of the program: they name the invariant of
  the grid model, the quantities the specification speaks of, and a one-pass form of the
  distribution that the proofs compare the nested loops with.
\<close>

subsection \<open>The grid model\<close>

text \<open>
  Auxiliary notions for the properties of the grid model. An info \<^emph>\<open>points home\<close> when
  its cell pointer designates a cell of the grid whose \<open>gc_row\<close> and \<open>gc_column\<close> fields
  are that cell's own position, as \<^verbatim>\<open>SetRange\<close> leaves it.
\<close>

definition pointsHome :: "gridLayoutCell list list \<Rightarrow> gridLayoutWidgetInfo \<Rightarrow> bool" where
  "pointsHome cs info =
     (case wi_cell info of
        None \<Rightarrow> False
      | Some p \<Rightarrow> fst p < length cs \<and> snd p < length (cs ! fst p)
                  \<and> gc_row (cs ! fst p ! snd p) = int (fst p)
                  \<and> gc_column (cs ! fst p ! snd p) = int (snd p))"

definition infosPointHome :: "GridLayout \<Rightarrow> bool" where
  "infosPointHome l = list_all (\<lambda>e. pointsHome (gl_cells l) (snd e)) (gl_widgetBase2Info l)"

text \<open>The cells as \<^verbatim>\<open>ensureSufficientSize\<close> grows them to \<open>nr\<close> rows and \<open>nc\<close> columns.\<close>

definition grownCells :: "nat \<Rightarrow> nat \<Rightarrow> gridLayoutCell list list \<Rightarrow> gridLayoutCell list list" where
  "grownCells nr nc cs =
     map (growRow nc) (if length cs < nr then cs @ replicate (nr - length cs) [] else cs)"

text \<open>The arguments \<^verbatim>\<open>SetRange\<close> is specified to reject.\<close>

definition rangeInvalid :: "GridLayout \<Rightarrow> Widget option \<Rightarrow> RectangleGrid \<Rightarrow> bool" where
  "rangeInvalid l widget r =
     (case widget of
        None \<Rightarrow> True
      | Some w \<Rightarrow>
          (case gl_container l of
             None \<Rightarrow> True
           | Some c \<Rightarrow> Handle w \<notin> set (Children c)
                        \<or> rX r < 0 \<or> rY r < 0 \<or> rWidth r < 1 \<or> rHeight r < 1))"

subsection \<open>The scan of the sections\<close>

text \<open>
  What the scan of a section sees at position \<open>j\<close> of section \<open>i\<close>: the item that is laid
  out there, with its info.
\<close>

definition laidOutItem ::
  "gridLayoutItem \<Rightarrow> Orientation \<Rightarrow> nat \<Rightarrow> nat \<Rightarrow> (LayoutItem \<times> gridLayoutItemInfo) option" where
  "laidOutItem li orientation i j =
     (case (case orientation of Horizontal \<Rightarrow> cellItem li j i | Vertical \<Rightarrow> cellItem li i j) of
        Some (Some item) \<Rightarrow>
          if shouldLayout item then map_option (Pair item) (li_item2Info li (ident item))
          else None
      | _ \<Rightarrow> None)"

text \<open>The span of an item and its greediness on the axis of the scan.\<close>

definition spanOn :: "Orientation \<Rightarrow> gridLayoutItemInfo \<Rightarrow> int" where
  "spanOn orientation info =
     (case orientation of Horizontal \<Rightarrow> ii_spanHorz info | Vertical \<Rightarrow> ii_spanVert info)"

definition greedyOn :: "Orientation \<Rightarrow> LayoutItem \<Rightarrow> bool" where
  "greedyOn orientation item =
     (case orientation of
        Horizontal \<Rightarrow> GreedyHorz \<in> LayoutFlags item
      | Vertical \<Rightarrow> GreedyVert \<in> LayoutFlags item)"

text \<open>
  Position \<open>j\<close> of section \<open>i\<close> holds a laid-out item of span 1 on the axis that is greedy
  on the axis and is a spacer (\<open>spacer = True\<close>) or is none (\<open>spacer = False\<close>).
\<close>

definition singleSpanGreedy ::
  "gridLayoutItem \<Rightarrow> Orientation \<Rightarrow> nat \<Rightarrow> nat \<Rightarrow> bool \<Rightarrow> bool" where
  "singleSpanGreedy li orientation i j spacer =
     (case laidOutItem li orientation i j of
        Some p \<Rightarrow> spanOn orientation (snd p) = 1 \<and> greedyOn orientation (fst p)
                   \<and> isSpacer (fst p) = spacer
      | None \<Rightarrow> False)"

text \<open>
  The minimum size that the item at position \<open>j\<close> of section \<open>i\<close> asks for on the axis,
  when it is laid out and has span 1 on the axis; \<open>None\<close> otherwise.
\<close>

definition minContribution ::
  "gridLayoutItem \<Rightarrow> Orientation \<Rightarrow> Pixel list \<Rightarrow> nat \<Rightarrow> nat \<Rightarrow> Pixel option" where
  "minContribution li orientation widths i j =
     (case laidOutItem li orientation i j of
        Some p \<Rightarrow>
          if spanOn orientation (snd p) = 1 then
            (case orientation of
               Horizontal \<Rightarrow> Some (Width (MinSizeEffective (fst p)))
             | Vertical \<Rightarrow>
                 (case HeightForWidth (fst p) of
                    Some hfw \<Rightarrow> map_option hfw (spannedWidth li (snd p) widths)
                  | None \<Rightarrow> Some (Height (MinSizeEffective (fst p)))))
          else None
      | None \<Rightarrow> None)"

text \<open>The minimum height a single-span item asks for on the vertical axis.\<close>

definition vertMin :: "gridLayoutItem \<Rightarrow> Pixel list \<Rightarrow> LayoutItem \<Rightarrow> gridLayoutItemInfo \<Rightarrow> Pixel option" where
  "vertMin li widths item info =
     (case HeightForWidth item of
        Some hfw \<Rightarrow> map_option hfw (spannedWidth li info widths)
      | None \<Rightarrow> Some (Height (MinSizeEffective item)))"

text \<open>
  The tier of section \<open>i\<close> in the words of the specification: 0 when the section contains
  a single-span greedy item that is no spacer, else 1 when it contains a single-span
  greedy spacer, else 2.
\<close>

definition specTier :: "gridLayoutItem \<Rightarrow> Orientation \<Rightarrow> nat \<Rightarrow> nat" where
  "specTier li orientation i =
     (if \<exists>j < otherAxisCount li orientation. singleSpanGreedy li orientation i j False then 0
      else if \<exists>j < otherAxisCount li orientation. singleSpanGreedy li orientation i j True then 1
      else 2)"

subsection \<open>The order of assignment\<close>

text \<open>The quotient \<^verbatim>\<open>Less\<close> compares: \<^verbatim>\<open>int(maxSize) / stretch\<close>.\<close>

definition ratio :: "gridLayoutSectionInfo \<Rightarrow> int" where
  "ratio s = maxSize s sdiv stretch s"

text \<open>
  The order two sections of equal flags are assigned in, in the words of the
  specification: the larger minimum size first, for equal minimum sizes the smaller
  quotient of maximum size by stretch factor first, and for equal quotients the original
  order (the sort is stable).
\<close>

definition keyOrdered :: "gridLayoutSectionInfo \<Rightarrow> gridLayoutSectionInfo \<Rightarrow> bool" where
  "keyOrdered a b =
     (minSize b < minSize a
      \<or> (minSize a = minSize b
          \<and> (ratio a < ratio b \<or> (ratio a = ratio b \<and> index a < index b))))"

text \<open>
  \<^verbatim>\<open>Less\<close> refined by the original position: the order a stable sort by \<^verbatim>\<open>Less\<close>
  establishes between any two sections.
\<close>

definition precedes :: "gridLayoutSectionInfo \<Rightarrow> gridLayoutSectionInfo \<Rightarrow> bool" where
  "precedes a b = (Less a b \<or> (\<not> Less b a \<and> index a < index b))"

subsection \<open>The distribution of the space\<close>

text \<open>
  The divisor a section meets when it is assigned: the stretch factors of the section
  itself and of the sections of its tier that come after it.
\<close>

definition remainingStretch ::
  "int list \<Rightarrow> gridLayoutSectionInfo \<Rightarrow> gridLayoutSectionInfo list \<Rightarrow> int" where
  "remainingStretch stretchFactors x rest =
     sum_list (map (\<lambda>s. stretchFactors ! index s) (filter (\<lambda>s. tierOf s = tierOf x) (x # rest)))"

text \<open>
  The three tier loops as one pass over a list of sections, the divisor being recomputed
  from the sections still to come. It is shown below to compute the sizes of the nested
  loops.
\<close>

primrec assignFlat ::
  "int list \<Rightarrow> Pixel \<Rightarrow> gridLayoutSectionInfo list \<Rightarrow> distState \<Rightarrow> distState option" where
  "assignFlat stretchFactors spacingPixels [] st = Some (st\<lparr>ds_stretchFactorsRemaining := 0\<rparr>)"
| "assignFlat stretchFactors spacingPixels (x # xs) st =
     (case assignSection stretchFactors spacingPixels x
             (st\<lparr>ds_stretchFactorsRemaining := remainingStretch stretchFactors x xs\<rparr>) of
        None \<Rightarrow> None
      | Some st' \<Rightarrow> assignFlat stretchFactors spacingPixels xs st')"

text \<open>
  The excess space of a state of the distribution: the remaining space minus the
  remaining minimum sizes minus the remaining spacing.
\<close>

definition excessSpace :: "distState \<Rightarrow> Pixel" where
  "excessSpace st = ds_space st - ds_minSizesRemaining st - ds_spacingRemaining st"

text \<open>The state in which the distribution starts.\<close>

definition distInit :: "int list \<Rightarrow> Pixel \<Rightarrow> Pixel \<Rightarrow> gridLayoutSectionInfo list \<Rightarrow> distState" where
  "distInit sf sp space secs =
     \<lparr>ds_space = space,
      ds_minSizesRemaining = sum_list (map minSize secs),
      ds_spacingRemaining = spacingRemainingInit sp secs,
      ds_stretchFactorsRemaining = 0,
      ds_sizes = replicate (length sf) 0\<rparr>"

text \<open>
  The size of a section in the words of the specification. When the section \<open>x\<close> is
  assigned, after the sections \<open>pre\<close> and before the sections \<open>post\<close>, the remaining space
  is the space without the sizes (and one spacing each) of the sections assigned before,
  the remaining minimum sizes are those of \<open>x\<close> and \<open>post\<close>, and the remaining spacing is
  the initial spacing without one spacing for each section assigned before.
\<close>

definition clampTo :: "Pixel \<Rightarrow> Pixel \<Rightarrow> Pixel \<Rightarrow> Pixel" where
  "clampTo lo hi v = max lo (min hi v)"

definition remainingSpace ::
  "Pixel \<Rightarrow> Pixel \<Rightarrow> Pixel list \<Rightarrow> gridLayoutSectionInfo list \<Rightarrow> Pixel" where
  "remainingSpace space spacingPixels sizes pre =
     space - sum_list (map (\<lambda>q. sizes ! index q + spacingPixels) pre)"

definition remainingMinSizes :: "gridLayoutSectionInfo list \<Rightarrow> Pixel" where
  "remainingMinSizes rest = sum_list (map minSize rest)"

definition remainingSpacing ::
  "Pixel \<Rightarrow> gridLayoutSectionInfo list \<Rightarrow> gridLayoutSectionInfo list \<Rightarrow> Pixel" where
  "remainingSpacing spacingPixels secs pre =
     spacingRemainingInit spacingPixels secs - spacingPixels * int (length pre)"

definition specSize ::
  "int list \<Rightarrow> Pixel \<Rightarrow> Pixel \<Rightarrow> gridLayoutSectionInfo list \<Rightarrow> Pixel list
     \<Rightarrow> gridLayoutSectionInfo list \<Rightarrow> gridLayoutSectionInfo \<Rightarrow> gridLayoutSectionInfo list
     \<Rightarrow> Pixel" where
  "specSize stretchFactors spacingPixels space secs sizes pre x post =
     (if minSize x < maxSize x then
        clampTo (minSize x) (maxSize x)
          (minSize x
           + ((remainingSpace space spacingPixels sizes pre - remainingMinSizes (x # post)
                 - remainingSpacing spacingPixels secs pre) * stretchFactors ! index x)
             sdiv remainingStretch stretchFactors x post)
      else minSize x)"

text \<open>
  The excess space before the first section is assigned, and the conditions under which
  the distribution stays within the space: stretch factors of at least 1 (what the
  setters of the grid model accept), a non-negative initial excess, and numbers in the
  range where the float64 quotient is exact.
\<close>

definition excessInit :: "gridLayoutItem \<Rightarrow> Orientation \<Rightarrow> Pixel \<Rightarrow> gridLayoutSectionInfo list \<Rightarrow> Pixel" where
  "excessInit li orientation space secs =
     space - marginsOf li orientation - sum_list (map minSize secs)
       - spacingRemainingInit (li_spacingPixels li) secs"

definition distributable :: "gridLayoutItem \<Rightarrow> Orientation \<Rightarrow> Pixel \<Rightarrow> gridLayoutSectionInfo list \<Rightarrow> bool" where
  "distributable li orientation space secs =
     (list_all (\<lambda>s. 1 \<le> s) (stretchFactorsOf li orientation)
      \<and> 0 \<le> excessInit li orientation space secs
      \<and> sum_list (stretchFactorsOf li orientation) < 2 ^ 53
      \<and> excessInit li orientation space secs * sum_list (stretchFactorsOf li orientation) < 2 ^ 53)"

subsection \<open>The minimum size of the grid\<close>

text \<open>
  The total the specification describes: the margins, the non-zero sizes, and one spacing
  between each pair of neighbouring non-zero sizes.
\<close>

definition specTotal :: "Pixel \<Rightarrow> Pixel \<Rightarrow> Pixel list \<Rightarrow> Pixel" where
  "specTotal spacingPixels margins sizes =
     margins + sum_list (filter (\<lambda>w. w > 0) sizes)
       + spacingPixels * int (length (filter (\<lambda>w. w > 0) sizes) - 1)"

section \<open>Concrete grids and views\<close>

text \<open>
  A concrete grid for evaluating the model: one widget (handle 7, widget base 1) in the
  only cell of a 1 \<open>\<times>\<close> 1 grid whose column has stretch factor 2.
\<close>

definition exampleGrid :: GridLayout where
  "exampleGrid =
     \<lparr>gl_rowStretchFactors = [1], gl_columnStretchFactors = [2],
      gl_widgetBase2Info =
        [(1, \<lparr>wi_cell = Some (0, 0), wi_spanHorz = 1, wi_spanVert = 1, wi_minSize = zeroSize\<rparr>)],
      gl_cells = [[\<lparr>gc_row = 0, gc_column = 0, gc_widgetBase = Some 1\<rparr>]],
      gl_container = Some \<lparr>Children = [7]\<rparr>\<rparr>"

definition exampleRange :: RectangleGrid where
  "exampleRange = \<lparr>rX = 1, rY = 2, rWidth = 1, rHeight = 1\<rparr>"

text \<open>
  Concrete snapshots for evaluating the engine. \<open>plainItem\<close> is a visible widget without
  maximum size, growable and shrinkable on both axes, not greedy, whose minimum and ideal
  size are both \<open>w \<times> h\<close>.
\<close>

definition plainItem :: "nat \<Rightarrow> Pixel \<Rightarrow> Pixel \<Rightarrow> LayoutItem" where
  "plainItem n w h =
     \<lparr>ident = n, shouldLayout = True, isSpacer = False,
      LayoutFlags = {ShrinkableHorz, ShrinkableVert, GrowableHorz, GrowableVert},
      MaxSize = zeroSize, IdealSize = Some \<lparr>Width = w, Height = h\<rparr>,
      HeightForWidth = None, MinSizeEffective = \<lparr>Width = w, Height = h\<rparr>\<rparr>"

text \<open>The info of an item of span 1 \<open>\<times>\<close> 1 at a position, and a cell of the snapshot.\<close>

definition singleInfo :: "int \<Rightarrow> int \<Rightarrow> gridLayoutItemInfo" where
  "singleInfo r c =
     \<lparr>ii_cell = Some (r, c), ii_spanHorz = 1, ii_spanVert = 1, ii_minSize = zeroSize\<rparr>"

definition itemCell :: "int \<Rightarrow> int \<Rightarrow> LayoutItem option \<Rightarrow> gridLayoutItemCell" where
  "itemCell r c it = \<lparr>ic_row = r, ic_column = c, ic_item = it\<rparr>"

text \<open>
  One row, two columns of stretch factor 1, an item of minimum width 50 without maximum
  in each, margins 9 on every side, spacing 6.
\<close>

definition twoColumns :: gridLayoutItem where
  "twoColumns =
     \<lparr>li_size2MinSize = Map.empty,
      li_rowStretchFactors = [1], li_columnStretchFactors = [1, 1],
      li_item2Info = [1 \<mapsto> singleInfo 0 0, 2 \<mapsto> singleInfo 0 1],
      li_cells = [[itemCell 0 0 (Some (plainItem 1 50 20)),
                   itemCell 0 1 (Some (plainItem 2 50 20))]],
      li_marginsPixels = \<lparr>HNear = 9, VNear = 9, HFar = 9, VFar = 9\<rparr>,
      li_spacingPixels = 6\<rparr>"

text \<open>The section info of a section without greedy items and without maximum.\<close>

definition plainSection :: "nat \<Rightarrow> Pixel \<Rightarrow> gridLayoutSectionInfo" where
  "plainSection i mn =
     \<lparr>index = i, minSize = mn, maxSize = 32768, stretch = 1,
      hasGreedyNonSpacer = False, hasGreedySpacer = False\<rparr>"

text \<open>
  \<open>greedyItem\<close> is a visible widget that is greedy on both axes; \<open>spacerItem\<close> is the
  layout item of a horizontal spacer (\<^verbatim>\<open>NewHSpacer\<close>): size hint zero, greedy and growable
  horizontally.
\<close>

definition greedyItem :: "nat \<Rightarrow> Pixel \<Rightarrow> Pixel \<Rightarrow> LayoutItem" where
  "greedyItem n w h =
     \<lparr>ident = n, shouldLayout = True, isSpacer = False,
      LayoutFlags = {ShrinkableHorz, ShrinkableVert, GrowableHorz, GrowableVert,
                     GreedyHorz, GreedyVert},
      MaxSize = zeroSize, IdealSize = Some \<lparr>Width = w, Height = h\<rparr>,
      HeightForWidth = None, MinSizeEffective = \<lparr>Width = w, Height = h\<rparr>\<rparr>"

definition spacerItem :: "nat \<Rightarrow> LayoutItem" where
  "spacerItem n =
     \<lparr>ident = n, shouldLayout = True, isSpacer = True,
      LayoutFlags = {ShrinkableHorz, ShrinkableVert, GrowableHorz, GreedyHorz},
      MaxSize = zeroSize, IdealSize = Some zeroSize,
      HeightForWidth = None, MinSizeEffective = zeroSize\<rparr>"

text \<open>
  Two rows, two columns: a greedy widget of minimum width 50 in column 0; a greedy widget
  of minimum width 10 and, below it, a horizontal spacer in column 1.
\<close>

definition mixedColumns :: gridLayoutItem where
  "mixedColumns =
     \<lparr>li_size2MinSize = Map.empty,
      li_rowStretchFactors = [1, 1], li_columnStretchFactors = [1, 1],
      li_item2Info = [1 \<mapsto> singleInfo 0 0, 2 \<mapsto> singleInfo 0 1, 3 \<mapsto> singleInfo 1 1],
      li_cells = [[itemCell 0 0 (Some (greedyItem 1 50 20)),
                   itemCell 0 1 (Some (greedyItem 2 10 20))],
                  [itemCell 1 0 None, itemCell 1 1 (Some (spacerItem 3))]],
      li_marginsPixels = \<lparr>HNear = 9, VNear = 9, HFar = 9, VFar = 9\<rparr>,
      li_spacingPixels = 6\<rparr>"

text \<open>The section infos the scan computes for the two columns.\<close>

definition mixedSection0 :: gridLayoutSectionInfo where
  "mixedSection0 =
     \<lparr>index = 0, minSize = 50, maxSize = 32768, stretch = 1,
      hasGreedyNonSpacer = True, hasGreedySpacer = False\<rparr>"

definition mixedSection1 :: gridLayoutSectionInfo where
  "mixedSection1 =
     \<lparr>index = 1, minSize = 10, maxSize = 32768, stretch = 1,
      hasGreedyNonSpacer = True, hasGreedySpacer = True\<rparr>"

text \<open>One row, two columns, and a single widget of minimum width 80 that spans both.\<close>

definition spanningOnly :: gridLayoutItem where
  "spanningOnly =
     \<lparr>li_size2MinSize = Map.empty,
      li_rowStretchFactors = [1], li_columnStretchFactors = [1, 1],
      li_item2Info =
        [1 \<mapsto> \<lparr>ii_cell = Some (0, 0), ii_spanHorz = 2, ii_spanVert = 1, ii_minSize = zeroSize\<rparr>],
      li_cells = [[itemCell 0 0 (Some (plainItem 1 80 20)),
                   itemCell 0 1 (Some (plainItem 1 80 20))]],
      li_marginsPixels = \<lparr>HNear = 9, VNear = 9, HFar = 9, VFar = 9\<rparr>,
      li_spacingPixels = 6\<rparr>"

text \<open>One row, an empty column 0 and a widget of minimum size 50 \<open>\<times>\<close> 20 in column 1.\<close>

definition leadingEmptyColumn :: gridLayoutItem where
  "leadingEmptyColumn =
     \<lparr>li_size2MinSize = Map.empty,
      li_rowStretchFactors = [1], li_columnStretchFactors = [1, 1],
      li_item2Info = [1 \<mapsto> singleInfo 0 1],
      li_cells = [[itemCell 0 0 None, itemCell 0 1 (Some (plainItem 1 50 20))]],
      li_marginsPixels = \<lparr>HNear = 9, VNear = 9, HFar = 9, VFar = 9\<rparr>,
      li_spacingPixels = 6\<rparr>"

text \<open>A grid without margins whose only cell is empty.\<close>

definition emptyNoMargins :: gridLayoutItem where
  "emptyNoMargins =
     \<lparr>li_size2MinSize = Map.empty,
      li_rowStretchFactors = [1], li_columnStretchFactors = [1],
      li_item2Info = Map.empty,
      li_cells = [[itemCell 0 0 None]],
      li_marginsPixels = \<lparr>HNear = 0, VNear = 0, HFar = 0, VFar = 0\<rparr>,
      li_spacingPixels = 6\<rparr>"

text \<open>The view of the example: shrink mode, client area 100 \<open>\<times>\<close> 100, margin 0, image 200 \<open>\<times>\<close> 100.\<close>

definition shrinkView :: ImageView where
  "shrinkView =
     \<lparr>iv_mode = ImageViewModeShrink,
      iv_clientBounds = \<lparr>rpX = 0, rpY = 0, rpWidth = 100, rpHeight = 100\<rparr>,
      iv_margin = 0,
      iv_imageSize = Some \<lparr>Width = 200, Height = 100\<rparr>\<rparr>"

(*DEFS-END*)

section \<open>Properties of the grid model\<close>

lemma repointInfos_home:
  "\<forall>e \<in> set es. pointsHome cs (snd e) \<Longrightarrow> repointInfos cs es = Some es"
  by (induction es) (auto simp: pointsHome_def split: option.splits)

lemma growRow_nth: "c < length cols \<Longrightarrow> growRow n cols ! c = cols ! c"
  by (simp add: growRow_def nth_append)

lemma growRow_length: "length (growRow n cols) = max n (length cols)"
  by (simp add: growRow_def)

lemma growRow_take: "take (length cols) (growRow n cols) = cols"
  by (simp add: growRow_def)

lemma sufficientStretchFactors_length:
  "length (sufficientStretchFactors sf n) = max (nat n) (length sf)"
  by (auto simp: sufficientStretchFactors_def)

lemma sufficientStretchFactors_take:
  "take (length sf) (sufficientStretchFactors sf n) = sf"
  by (simp add: sufficientStretchFactors_def)

lemma sufficientStretchFactors_new:
  "length sf \<le> i \<Longrightarrow> i < length (sufficientStretchFactors sf n) \<Longrightarrow>
     sufficientStretchFactors sf n ! i = 1"
  by (auto simp: sufficientStretchFactors_def nth_append split: if_splits)

lemma grownCells_length: "length (grownCells nr nc cs) = max nr (length cs)"
  by (simp add: grownCells_def)

lemma grownCells_row: "r < length cs \<Longrightarrow> grownCells nr nc cs ! r = growRow nc (cs ! r)"
  by (simp add: grownCells_def nth_append)

lemma pointsHome_grown: "pointsHome cs info \<Longrightarrow> pointsHome (grownCells nr nc cs) info"
  by (auto simp: pointsHome_def grownCells_length grownCells_row growRow_length growRow_nth
           split: option.splits)

lemma ensureSufficientSize_alt:
  "ensureSufficientSize l rows columns =
     map_option
       (\<lambda>infos. l\<lparr>gl_rowStretchFactors := sufficientStretchFactors (gl_rowStretchFactors l) rows,
                   gl_columnStretchFactors :=
                     sufficientStretchFactors (gl_columnStretchFactors l) columns,
                   gl_widgetBase2Info := infos,
                   gl_cells :=
                     grownCells (length (sufficientStretchFactors (gl_rowStretchFactors l) rows))
                       (length (sufficientStretchFactors (gl_columnStretchFactors l) columns))
                       (gl_cells l)\<rparr>)
       (repointInfos
          (grownCells (length (sufficientStretchFactors (gl_rowStretchFactors l) rows))
             (length (sufficientStretchFactors (gl_columnStretchFactors l) columns))
             (gl_cells l))
          (gl_widgetBase2Info l))"
  by (simp add: ensureSufficientSize_def grownCells_def Let_def)

text \<open>
  C7. Growing the grid with \<^verbatim>\<open>ensureSufficientSize\<close> (the step through which
  \<^verbatim>\<open>SetRange\<close> and the stretch-factor setters grow it) succeeds on a grid whose infos
  point home, never lowers the number of rows or columns, keeps every existing row and
  column stretch factor, sets every new stretch-factor slot to 1, keeps every existing
  cell (and with it the widget stored there) at its position, and keeps every
  widget-to-cell association.
\<close>

theorem ensureSufficientSize_preserves:
  assumes "infosPointHome l"
  shows "\<exists>l'. ensureSufficientSize l rows columns = Some l'
      \<and> length (gl_rowStretchFactors l) \<le> length (gl_rowStretchFactors l')
      \<and> length (gl_columnStretchFactors l) \<le> length (gl_columnStretchFactors l')
      \<and> take (length (gl_rowStretchFactors l)) (gl_rowStretchFactors l') = gl_rowStretchFactors l
      \<and> take (length (gl_columnStretchFactors l)) (gl_columnStretchFactors l')
          = gl_columnStretchFactors l
      \<and> (\<forall>i. length (gl_rowStretchFactors l) \<le> i \<and> i < length (gl_rowStretchFactors l')
              \<longrightarrow> gl_rowStretchFactors l' ! i = 1)
      \<and> (\<forall>i. length (gl_columnStretchFactors l) \<le> i \<and> i < length (gl_columnStretchFactors l')
              \<longrightarrow> gl_columnStretchFactors l' ! i = 1)
      \<and> length (gl_cells l) \<le> length (gl_cells l')
      \<and> (\<forall>r < length (gl_cells l).
            length (gl_cells l ! r) \<le> length (gl_cells l' ! r)
            \<and> take (length (gl_cells l ! r)) (gl_cells l' ! r) = gl_cells l ! r)
      \<and> gl_widgetBase2Info l' = gl_widgetBase2Info l
      \<and> infosPointHome l'"
proof -
  let ?cs = "grownCells (length (sufficientStretchFactors (gl_rowStretchFactors l) rows))
               (length (sufficientStretchFactors (gl_columnStretchFactors l) columns))
               (gl_cells l)"
  have home: "\<forall>e \<in> set (gl_widgetBase2Info l). pointsHome ?cs (snd e)"
    using assms pointsHome_grown by (auto simp: infosPointHome_def list_all_iff)
  have rp: "repointInfos ?cs (gl_widgetBase2Info l) = Some (gl_widgetBase2Info l)"
    using home by (rule repointInfos_home)
  show ?thesis
    unfolding ensureSufficientSize_alt rp
    using home
    by (simp add: sufficientStretchFactors_length sufficientStretchFactors_take
          sufficientStretchFactors_new grownCells_length grownCells_row growRow_length
          growRow_take infosPointHome_def list_all_iff)
qed

theorem ensureSufficientSize_preserves_witness:
  "infosPointHome exampleGrid
   \<and> (\<exists>l'. ensureSufficientSize exampleGrid 3 4 = Some l'
          \<and> take (length (gl_rowStretchFactors exampleGrid)) (gl_rowStretchFactors l')
              = gl_rowStretchFactors exampleGrid
          \<and> gl_widgetBase2Info l' = gl_widgetBase2Info exampleGrid)"
proof -
  have h: "infosPointHome exampleGrid"
    by (simp add: infosPointHome_def exampleGrid_def pointsHome_def)
  from ensureSufficientSize_preserves [OF h, of 3 4] h show ?thesis
    by blast
qed

text \<open>
  C6. \<^verbatim>\<open>SetRange\<close> returns an error when the widget is nil, the container is nil, the
  widget is not a child of the container, X or Y is negative, or Width or Height is below
  1; whenever it returns an error, one of these holds and the layout it leaves is the one
  it was called on.
\<close>

theorem SetRange_error_no_mutation:
  "(rangeInvalid l widget r \<longrightarrow> (\<exists>e. SetRange l widget r = Some (Some e, l)))
   \<and> (\<forall>e l'. SetRange l widget r = Some (Some e, l') \<longrightarrow> l' = l \<and> rangeInvalid l widget r)"
  by (auto simp: SetRange_def rangeInvalid_def Let_def split: option.splits if_splits)

theorem SetRange_error_no_mutation_witness:
  "rangeInvalid exampleGrid (Some \<lparr>Handle = 8, AsWidgetBase = 2\<rparr>) exampleRange
   \<and> SetRange exampleGrid (Some \<lparr>Handle = 8, AsWidgetBase = 2\<rparr>) exampleRange
       = Some (Some WidgetMustBeChild, exampleGrid)"
proof -
  have h: "rangeInvalid exampleGrid (Some \<lparr>Handle = 8, AsWidgetBase = 2\<rparr>) exampleRange"
    by (simp add: rangeInvalid_def exampleGrid_def)
  have e: "SetRange exampleGrid (Some \<lparr>Handle = 8, AsWidgetBase = 2\<rparr>) exampleRange
       = Some (Some WidgetMustBeChild, exampleGrid)"
    by (simp add: SetRange_def exampleGrid_def)
  from SetRange_error_no_mutation [of exampleGrid "Some \<lparr>Handle = 8, AsWidgetBase = 2\<rparr>" exampleRange]
  have "exampleGrid = exampleGrid
          \<and> rangeInvalid exampleGrid (Some \<lparr>Handle = 8, AsWidgetBase = 2\<rparr>) exampleRange"
    using e by blast
  with e show ?thesis by simp
qed

text \<open>
  C10. For every negative index both stretch-factor getters return \<open>- 1\<close>, which is below
  the least stretch factor a setter accepts (1).
\<close>

theorem StretchFactor_negative_index:
  "i < 0 \<Longrightarrow> RowStretchFactor l i = - 1 \<and> ColumnStretchFactor l i = - 1
     \<and> RowStretchFactor l i < 1 \<and> ColumnStretchFactor l i < 1"
  by (simp add: RowStretchFactor_def ColumnStretchFactor_def)

theorem StretchFactor_negative_index_witness:
  "(- 3 :: int) < 0 \<and> RowStretchFactor exampleGrid (- 3) = - 1
     \<and> ColumnStretchFactor exampleGrid (- 3) = - 1"
  using StretchFactor_negative_index [of "- 3" exampleGrid] by simp

section \<open>The order of assignment\<close>

lemma Less_irrefl: "\<not> Less a a"
  by (simp add: Less_def)

lemma Less_asym: "Less a b \<Longrightarrow> \<not> Less b a"
  by (auto simp: Less_def Let_def split: if_splits)

lemma Less_trans: "Less a b \<Longrightarrow> Less b c \<Longrightarrow> Less a c"
  by (auto simp: Less_def Let_def split: if_splits)

lemma Less_negtrans: "\<not> Less a b \<Longrightarrow> \<not> Less b c \<Longrightarrow> \<not> Less a c"
  by (auto simp: Less_def Let_def split: if_splits)

lemma Less_tier: "\<not> Less b a \<Longrightarrow> tierOf a \<le> tierOf b"
  by (auto simp: Less_def tierOf_def Let_def split: if_splits)

lemma mset_insertStable: "mset (insertStable lt x ys) = add_mset x (mset ys)"
  by (induction ys) auto

lemma mset_sortStable: "mset (sortStable lt xs) = mset xs"
  by (induction xs) (auto simp: sortStable_def mset_insertStable)

lemma set_insertStable: "set (insertStable lt x ys) = insert x (set ys)"
  by (induction ys) auto

lemma sorted_insertStable:
  assumes asym: "\<And>a b. lt a b \<Longrightarrow> \<not> lt b a"
    and nt: "\<And>a b c. \<not> lt a b \<Longrightarrow> \<not> lt b c \<Longrightarrow> \<not> lt a c"
  shows "sorted_wrt (\<lambda>a b. \<not> lt b a) ys \<Longrightarrow> sorted_wrt (\<lambda>a b. \<not> lt b a) (insertStable lt x ys)"
proof (induction ys)
  case Nil
  then show ?case by simp
next
  case (Cons y ys)
  show ?case
  proof (cases "lt y x")
    case True
    with Cons asym show ?thesis by (auto simp: set_insertStable)
  next
    case False
    with Cons nt show ?thesis by auto
  qed
qed

lemma sorted_sortStable:
  assumes asym: "\<And>a b. lt a b \<Longrightarrow> \<not> lt b a"
    and nt: "\<And>a b c. \<not> lt a b \<Longrightarrow> \<not> lt b c \<Longrightarrow> \<not> lt a c"
  shows "sorted_wrt (\<lambda>a b. \<not> lt b a) (sortStable lt xs)"
proof (induction xs)
  case Nil
  then show ?case by (simp add: sortStable_def)
next
  case (Cons x xs)
  then show ?case
    using sorted_insertStable [of lt "sortStable lt xs" x, OF asym nt]
    by (simp add: sortStable_def)
qed

lemma sorted_Less: "sorted_wrt (\<lambda>a b. \<not> Less b a) (sortStable Less secs)"
  using Less_asym Less_negtrans by (rule sorted_sortStable) blast+

lemma sorted_tiers: "sorted_wrt (\<lambda>a b. tierOf a \<le> tierOf b) (sortStable Less secs)"
  by (rule sorted_wrt_mono_rel [OF _ sorted_Less]) (simp add: Less_tier)

lemma tierOf_le2: "tierOf s \<le> 2"
  by (simp add: tierOf_def)

lemma tier_split:
  "sorted_wrt (\<lambda>a b. tierOf a \<le> tierOf b) xs \<Longrightarrow>
     xs = filter (\<lambda>s. tierOf s = 0) xs @ filter (\<lambda>s. tierOf s = 1) xs
            @ filter (\<lambda>s. tierOf s = 2) xs"
proof (induction xs)
  case Nil
  then show ?case by simp
next
  case (Cons x xs)
  have ge: "\<forall>y \<in> set xs. tierOf x \<le> tierOf y" using Cons.prems by simp
  have ih: "xs = filter (\<lambda>s. tierOf s = 0) xs @ filter (\<lambda>s. tierOf s = 1) xs
            @ filter (\<lambda>s. tierOf s = 2) xs" using Cons by simp
  consider "tierOf x = 0" | "tierOf x = 1" | "tierOf x = 2"
    using tierOf_le2 [of x] by linarith
  then show ?case
  proof cases
    case 1
    then show ?thesis using ih by simp
  next
    case 2
    then have "filter (\<lambda>s. tierOf s = 0) xs = []" using ge by (auto simp: filter_empty_conv)
    then show ?thesis using 2 ih by simp
  next
    case 3
    then have "filter (\<lambda>s. tierOf s = 0) xs = []" "filter (\<lambda>s. tierOf s = 1) xs = []"
      using ge by (auto simp: filter_empty_conv)
    then show ?thesis using 3 ih by simp
  qed
qed

lemma length_filter_sortStable:
  "length (filter P (sortStable lt xs)) = length (filter P xs)"
proof -
  have "mset (filter P (sortStable lt xs)) = mset (filter P xs)"
    by (simp add: mset_sortStable)
  then show ?thesis by (metis size_mset)
qed

lemma length_sortStable: "length (sortStable lt xs) = length xs"
  by (metis mset_sortStable size_mset)

lemma tier_lengths:
  "length (filter (\<lambda>s. tierOf s = 0) xs) + length (filter (\<lambda>s. tierOf s = 1) xs)
     + length (filter (\<lambda>s. tierOf s = 2) xs) = length xs"
  by (induction xs) (auto simp: tierOf_def)

lemma map_nth_offset: "a + c \<le> length xs \<Longrightarrow> map (\<lambda>j. xs ! (a + j)) [0 ..< c] = take c (drop a xs)"
  by (rule nth_equalityI) auto

lemma tierSections_filter:
  "t \<le> 2 \<Longrightarrow> tierSections secs t = filter (\<lambda>s. tierOf s = t) (sortStable Less secs)"
proof -
  assume t: "t \<le> 2"
  let ?xs = "sortStable Less secs"
  let ?A = "filter (\<lambda>s. tierOf s = 0) ?xs"
  let ?B = "filter (\<lambda>s. tierOf s = 1) ?xs"
  let ?C = "filter (\<lambda>s. tierOf s = 2) ?xs"
  have split: "?xs = ?A @ ?B @ ?C" by (rule tier_split [OF sorted_tiers])
  have c0: "sectionCountWithGreedyNonSpacer secs = length ?A"
    by (simp add: sectionCountWithGreedyNonSpacer_def length_filter_sortStable)
  have c1: "sectionCountWithGreedySpacer secs = length ?B"
    by (simp add: sectionCountWithGreedySpacer_def length_filter_sortStable)
  have n: "length ?A + length ?B + length ?C = length secs"
    using tier_lengths [of ?xs] by (simp add: length_sortStable)
  have c2: "length secs - length ?A - length ?B = length ?C" using n by linarith
  have len: "length ?xs = length ?A + length ?B + length ?C" using n by (simp add: length_sortStable)
  consider "t = 0" | "t = 1" | "t = 2" using t by linarith
  then show ?thesis
  proof cases
    case 1
    have "tierSections secs 0 = take (length ?A) (drop 0 ?xs)"
      unfolding tierSections_def offsets_def counts_def c0
      using len by (simp only: nth_Cons_0) (rule map_nth_offset, simp)
    also have "\<dots> = take (length ?A) (?A @ ?B @ ?C)" using split by simp
    also have "\<dots> = ?A" by simp
    finally show ?thesis using 1 by simp
  next
    case 2
    have "tierSections secs 1 = take (length ?B) (drop (length ?A) ?xs)"
      unfolding tierSections_def offsets_def counts_def c0 c1
      using len by (simp only: nth_Cons_Suc nth_Cons_0 One_nat_def) (rule map_nth_offset, simp)
    also have "\<dots> = take (length ?B) (drop (length ?A) (?A @ ?B @ ?C))" using split by simp
    also have "\<dots> = ?B" by simp
    finally show ?thesis using 2 by simp
  next
    case 3
    have "tierSections secs 2 = take (length ?C) (drop (length ?A + length ?B) ?xs)"
      unfolding tierSections_def offsets_def counts_def c0 c1 c2
      using len by (simp add: numeral_2_eq_2 map_nth_offset)
    also have "\<dots> = take (length ?C) (drop (length ?A + length ?B) (?A @ ?B @ ?C))"
      using split by simp
    also have "\<dots> = ?C" by simp
    finally show ?thesis using 3 by simp
  qed
qed

lemma assignmentOrder_sorted: "assignmentOrder secs = sortStable Less secs"
  using tier_split [OF sorted_tiers, of secs]
  by (simp add: assignmentOrder_def tierSections_filter)

section \<open>The distribution as one pass\<close>

lemma assignFlat_sfr:
  "assignFlat sf sp xs (st\<lparr>ds_stretchFactorsRemaining := a\<rparr>) = assignFlat sf sp xs st"
  by (cases xs) simp_all

lemma assignSection_sfr:
  "assignSection sf sp x st = Some st' \<Longrightarrow>
     ds_stretchFactorsRemaining st' = ds_stretchFactorsRemaining st - sf ! index x"
  by (auto simp: assignSection_def Let_def split: if_splits option.splits)

lemma remainingStretch_tier:
  assumes "\<forall>y \<in> set T. tierOf y = tierOf x" "\<forall>y \<in> set R. tierOf y \<noteq> tierOf x"
  shows "remainingStretch sf x (T @ R) = sf ! index x + sum_list (map (\<lambda>s. sf ! index s) T)"
proof -
  have "filter (\<lambda>s. tierOf s = tierOf x) T = T" using assms(1) by (simp add: filter_id_conv)
  moreover have "filter (\<lambda>s. tierOf s = tierOf x) R = []" using assms(2) by (simp add: filter_empty_conv)
  ultimately show ?thesis by (simp add: remainingStretch_def)
qed

lemma flat_tier:
  assumes "\<forall>x \<in> set T. tierOf x = t" "\<forall>y \<in> set R. tierOf y \<noteq> t"
  shows "assignFlat sf sp (T @ R) st =
           (case assignSections sf sp T
                   (st\<lparr>ds_stretchFactorsRemaining := sum_list (map (\<lambda>s. sf ! index s) T)\<rparr>) of
              None \<Rightarrow> None
            | Some st' \<Rightarrow> assignFlat sf sp R st')"
  using assms
proof (induction T arbitrary: st)
  case Nil
  then show ?case by (simp add: assignFlat_sfr)
next
  case (Cons x T)
  have rs: "remainingStretch sf x (T @ R) = sf ! index x + sum_list (map (\<lambda>s. sf ! index s) T)"
    using Cons.prems by (intro remainingStretch_tier) auto
  show ?case
  proof (cases "assignSection sf sp x
                  (st\<lparr>ds_stretchFactorsRemaining := sf ! index x + sum_list (map (\<lambda>s. sf ! index s) T)\<rparr>)")
    case None
    then show ?thesis by (simp add: rs)
  next
    case (Some st1)
    have "ds_stretchFactorsRemaining st1 = sum_list (map (\<lambda>s. sf ! index s) T)"
      using assignSection_sfr [OF Some] by simp
    then have eq: "st1\<lparr>ds_stretchFactorsRemaining := sum_list (map (\<lambda>s. sf ! index s) T)\<rparr> = st1"
      by simp
    have "assignFlat sf sp (T @ R) st1 =
           (case assignSections sf sp T st1 of None \<Rightarrow> None | Some st' \<Rightarrow> assignFlat sf sp R st')"
      using Cons.IH [of st1] Cons.prems eq by simp
    then show ?thesis using Some by (simp add: rs)
  qed
qed

lemma sum_filter_sortStable:
  fixes f :: "'a \<Rightarrow> int"
  shows "sum_list (map f (filter P (sortStable lt xs))) = sum_list (map f (filter P xs))"
proof -
  have "mset (map f (filter P (sortStable lt xs))) = mset (map f (filter P xs))"
    by (simp add: mset_sortStable)
  then have "sum_mset (mset (map f (filter P (sortStable lt xs))))
               = sum_mset (mset (map f (filter P xs)))"
    by (simp only:)
  then show ?thesis by (simp only: sum_mset_sum_list)
qed

lemma stretchFactorsTotal_sorted:
  "stretchFactorsTotal sf secs t =
     sum_list (map (\<lambda>s. sf ! index s) (filter (\<lambda>s. tierOf s = t) (sortStable Less secs)))"
  by (simp add: stretchFactorsTotal_def sum_filter_sortStable)

lemma assignTiers_flat:
  "map_option ds_sizes (assignTiers sf sp secs [0, 1, 2] st) =
     map_option ds_sizes (assignFlat sf sp (sortStable Less secs) st)"
proof -
  let ?xs = "sortStable Less secs"
  let ?A = "filter (\<lambda>s. tierOf s = 0) ?xs"
  let ?B = "filter (\<lambda>s. tierOf s = 1) ?xs"
  let ?C = "filter (\<lambda>s. tierOf s = 2) ?xs"
  have split: "?xs = ?A @ ?B @ ?C" by (rule tier_split [OF sorted_tiers])
  have fA: "\<And>s. assignFlat sf sp (?A @ (?B @ ?C)) s =
           (case assignSections sf sp ?A (s\<lparr>ds_stretchFactorsRemaining := stretchFactorsTotal sf secs 0\<rparr>) of
              None \<Rightarrow> None | Some st' \<Rightarrow> assignFlat sf sp (?B @ ?C) st')"
    unfolding stretchFactorsTotal_sorted by (rule flat_tier) auto
  have fB: "\<And>s. assignFlat sf sp (?B @ ?C) s =
           (case assignSections sf sp ?B (s\<lparr>ds_stretchFactorsRemaining := stretchFactorsTotal sf secs 1\<rparr>) of
              None \<Rightarrow> None | Some st' \<Rightarrow> assignFlat sf sp ?C st')"
    unfolding stretchFactorsTotal_sorted by (rule flat_tier) auto
  have fC: "\<And>s. assignFlat sf sp (?C @ []) s =
           (case assignSections sf sp ?C (s\<lparr>ds_stretchFactorsRemaining := stretchFactorsTotal sf secs 2\<rparr>) of
              None \<Rightarrow> None | Some st' \<Rightarrow> assignFlat sf sp [] st')"
    unfolding stretchFactorsTotal_sorted by (rule flat_tier) auto
  have tA: "tierSections secs 0 = ?A" by (simp add: tierSections_filter)
  have tB: "tierSections secs 1 = ?B" by (simp add: tierSections_filter del: One_nat_def)
  have tC: "tierSections secs 2 = ?C" by (simp add: tierSections_filter)
  have "map_option ds_sizes (assignFlat sf sp (?A @ (?B @ ?C)) st) =
        map_option ds_sizes (assignTiers sf sp secs [0, 1, 2] st)"
  proof (cases "assignSections sf sp ?A (st\<lparr>ds_stretchFactorsRemaining := stretchFactorsTotal sf secs 0\<rparr>)")
    case None
    then show ?thesis by (simp add: fA tA del: One_nat_def)
  next
    case (Some s1)
    note s1 = Some
    show ?thesis
    proof (cases "assignSections sf sp ?B (s1\<lparr>ds_stretchFactorsRemaining := stretchFactorsTotal sf secs 1\<rparr>)")
      case None
      then show ?thesis using s1 by (simp add: fA fB tA tB del: One_nat_def)
    next
      case (Some s2)
      note s2 = Some
      show ?thesis
      proof (cases "assignSections sf sp ?C (s2\<lparr>ds_stretchFactorsRemaining := stretchFactorsTotal sf secs 2\<rparr>)")
        case None
        then show ?thesis using s1 s2 fC [of s2] by (simp add: fA fB tA tB tC del: One_nat_def)
      next
        case (Some s3)
        then show ?thesis using s1 s2 fC [of s2] by (simp add: fA fB tA tB tC del: One_nat_def)
      qed
    qed
  qed
  then show ?thesis using split by (simp del: One_nat_def)
qed

lemma assignSection_fields:
  "assignSection sf sp x st = Some st' \<Longrightarrow>
     index x < length sf \<and> index x < length (ds_sizes st)
     \<and> (\<exists>sz. sectionSize (sf ! index x) x st = Some sz
            \<and> ds_sizes st' = (ds_sizes st)[index x := sz]
            \<and> ds_space st' = ds_space st - (sz + sp))
     \<and> ds_minSizesRemaining st' = ds_minSizesRemaining st - minSize x
     \<and> ds_spacingRemaining st' = ds_spacingRemaining st - sp"
  by (auto simp: assignSection_def Let_def split: if_splits option.splits)

lemma flat_frame:
  "assignFlat sf sp xs st = Some st' \<Longrightarrow> distinct (map index xs) \<Longrightarrow>
     length (ds_sizes st') = length (ds_sizes st)
   \<and> (\<forall>k. k \<notin> index ` set xs \<longrightarrow> ds_sizes st' ! k = ds_sizes st ! k)
   \<and> ds_space st' = ds_space st - sum_list (map (\<lambda>q. ds_sizes st' ! index q + sp) xs)
   \<and> ds_minSizesRemaining st' = ds_minSizesRemaining st - sum_list (map minSize xs)
   \<and> ds_spacingRemaining st' = ds_spacingRemaining st - sp * int (length xs)"
proof (induction xs arbitrary: st)
  case Nil
  then show ?case by auto
next
  case (Cons x xs)
  let ?st0 = "st\<lparr>ds_stretchFactorsRemaining := remainingStretch sf x xs\<rparr>"
  from Cons.prems(1) obtain st1 where
    s1: "assignSection sf sp x ?st0 = Some st1" and rest: "assignFlat sf sp xs st1 = Some st'"
    by (auto split: option.splits)
  from assignSection_fields [OF s1] obtain sz where
    k: "index x < length (ds_sizes st)"
    and sizes1: "ds_sizes st1 = (ds_sizes st)[index x := sz]"
    and space1: "ds_space st1 = ds_space st - (sz + sp)"
    and min1: "ds_minSizesRemaining st1 = ds_minSizesRemaining st - minSize x"
    and spc1: "ds_spacingRemaining st1 = ds_spacingRemaining st - sp"
    by auto
  have dx: "index x \<notin> index ` set xs" and dxs: "distinct (map index xs)"
    using Cons.prems(2) by auto
  note ih = Cons.IH [OF rest dxs]
  have fin: "ds_sizes st' ! index x = sz"
    using ih dx sizes1 k by simp
  have l: "length (ds_sizes st') = length (ds_sizes st)" using ih sizes1 by simp
  have fr: "\<forall>k. k \<notin> index ` set (x # xs) \<longrightarrow> ds_sizes st' ! k = ds_sizes st ! k"
    using ih sizes1 by auto
  have sp': "ds_space st' = ds_space st - sum_list (map (\<lambda>q. ds_sizes st' ! index q + sp) (x # xs))"
    using ih space1 fin by simp
  have mn: "ds_minSizesRemaining st' = ds_minSizesRemaining st - sum_list (map minSize (x # xs))"
    using ih min1 by simp
  have sr: "ds_spacingRemaining st' = ds_spacingRemaining st - sp * int (length (x # xs))"
    using ih spc1 by (simp add: algebra_simps)
  from l fr sp' mn sr show ?case by blast
qed

lemma sectionSize_fields:
  "sectionSize f x
     \<lparr>ds_space = ds_space st, ds_minSizesRemaining = ds_minSizesRemaining st,
      ds_spacingRemaining = ds_spacingRemaining st,
      ds_stretchFactorsRemaining = ds_stretchFactorsRemaining st, ds_sizes = zs\<rparr>
   = sectionSize f x st"
  by (simp add: sectionSize_def)

lemma flat_section:
  "assignFlat sf sp (pre @ x # post) st = Some st' \<Longrightarrow> distinct (map index (pre @ x # post)) \<Longrightarrow>
   sectionSize (sf ! index x) x
     \<lparr>ds_space = ds_space st - sum_list (map (\<lambda>q. ds_sizes st' ! index q + sp) pre),
      ds_minSizesRemaining = ds_minSizesRemaining st - sum_list (map minSize pre),
      ds_spacingRemaining = ds_spacingRemaining st - sp * int (length pre),
      ds_stretchFactorsRemaining = remainingStretch sf x post,
      ds_sizes = zs\<rparr> = Some (ds_sizes st' ! index x)"
proof (induction pre arbitrary: st)
  case Nil
  let ?st0 = "st\<lparr>ds_stretchFactorsRemaining := remainingStretch sf x post\<rparr>"
  from Nil.prems(1) obtain st1 where
    s1: "assignSection sf sp x ?st0 = Some st1" and rest: "assignFlat sf sp post st1 = Some st'"
    by (auto split: option.splits)
  from assignSection_fields [OF s1] obtain sz where
    k: "index x < length (ds_sizes st)"
    and sz: "sectionSize (sf ! index x) x ?st0 = Some sz"
    and sizes1: "ds_sizes st1 = (ds_sizes st)[index x := sz]"
    by auto
  have dx: "index x \<notin> index ` set post" and dp: "distinct (map index post)"
    using Nil.prems(2) by auto
  have fin: "ds_sizes st' ! index x = sz"
    using flat_frame [OF rest dp] dx sizes1 k by simp
  show ?case using sz fin sectionSize_fields [of "sf ! index x" x ?st0 zs] by simp
next
  case (Cons p pre)
  let ?st0 = "st\<lparr>ds_stretchFactorsRemaining := remainingStretch sf p (pre @ x # post)\<rparr>"
  from Cons.prems(1) obtain st1 where
    s1: "assignSection sf sp p ?st0 = Some st1"
    and rest: "assignFlat sf sp (pre @ x # post) st1 = Some st'"
    by (auto split: option.splits)
  from assignSection_fields [OF s1] obtain sz where
    k: "index p < length (ds_sizes st)"
    and sizes1: "ds_sizes st1 = (ds_sizes st)[index p := sz]"
    and space1: "ds_space st1 = ds_space st - (sz + sp)"
    and min1: "ds_minSizesRemaining st1 = ds_minSizesRemaining st - minSize p"
    and spc1: "ds_spacingRemaining st1 = ds_spacingRemaining st - sp"
    by auto
  have dp: "index p \<notin> index ` set (pre @ x # post)" and dr: "distinct (map index (pre @ x # post))"
    using Cons.prems(2) by auto
  have fin: "ds_sizes st' ! index p = sz"
    using flat_frame [OF rest dr] dp sizes1 k by simp
  have e1: "ds_space st1 - sum_list (map (\<lambda>q. ds_sizes st' ! index q + sp) pre)
        = ds_space st - sum_list (map (\<lambda>q. ds_sizes st' ! index q + sp) (p # pre))"
    using space1 fin by simp
  have e2: "ds_minSizesRemaining st1 - sum_list (map minSize pre)
        = ds_minSizesRemaining st - sum_list (map minSize (p # pre))"
    using min1 by simp
  have e3: "ds_spacingRemaining st1 - sp * int (length pre)
        = ds_spacingRemaining st - sp * int (length (p # pre))"
    using spc1 by (simp add: algebra_simps)
  from Cons.IH [OF rest dr] show ?case by (simp only: e1 e2 e3)
qed

lemma sdiv_share_bounds:
  fixes e s t :: int
  assumes "0 \<le> e" "1 \<le> s" "s \<le> t"
  shows "0 \<le> (e * s) sdiv t \<and> (e * s) sdiv t \<le> e"
proof -
  have t: "0 < t" using assms by linarith
  have es: "0 \<le> e * s" using assms by simp
  have eq: "(e * s) sdiv t = (e * s) div t"
    using t es by (cases "e * s = 0") (auto simp: signed_divide_int_def sgn_if)
  have "e * s \<le> e * t" using assms by (simp add: mult_left_mono)
  then have "(e * s) div t \<le> (e * t) div t" using t by (rule zdiv_mono1)
  then have "(e * s) div t \<le> e" using t by simp
  moreover have "0 \<le> (e * s) div t" using es t by (simp add: pos_imp_zdiv_nonneg_iff)
  ultimately show ?thesis using eq by simp
qed

lemma sum_filter_le:
  fixes f :: "'a \<Rightarrow> int"
  shows "\<forall>x \<in> set xs. 0 \<le> f x \<Longrightarrow> sum_list (map f (filter P xs)) \<le> sum_list (map f xs)"
  by (induction xs) auto

lemma flat_exists:
  assumes "0 \<le> excessSpace st"
    and "\<forall>x \<in> set xs. index x < length sf \<and> index x < length (ds_sizes st) \<and> 1 \<le> sf ! index x"
    and "sum_list (map (\<lambda>s. sf ! index s) xs) \<le> B" and "B < 2 ^ 53"
    and "excessSpace st * B < 2 ^ 53"
  shows "\<exists>st'. assignFlat sf sp xs st = Some st' \<and> 0 \<le> excessSpace st'
           \<and> excessSpace st' \<le> excessSpace st"
  using assms
proof (induction xs arbitrary: st)
  case Nil
  then show ?case by (simp add: excessSpace_def)
next
  case (Cons x xs)
  let ?E = "excessSpace st"
  let ?s = "sf ! index x"
  let ?T = "remainingStretch sf x xs"
  let ?st0 = "st\<lparr>ds_stretchFactorsRemaining := ?T\<rparr>"
  have s1: "1 \<le> ?s" and kx: "index x < length sf" "index x < length (ds_sizes st)"
    using Cons.prems(2) by auto
  have nonneg: "\<forall>y \<in> set xs. 0 \<le> sf ! index y" using Cons.prems(2) by fastforce
  have T_eq: "?T = ?s + sum_list (map (\<lambda>s. sf ! index s) (filter (\<lambda>s. tierOf s = tierOf x) xs))"
    by (simp add: remainingStretch_def)
  have f_le: "sum_list (map (\<lambda>s. sf ! index s) (filter (\<lambda>s. tierOf s = tierOf x) xs))
               \<le> sum_list (map (\<lambda>s. sf ! index s) xs)"
    using nonneg by (rule sum_filter_le)
  have f_ge: "0 \<le> sum_list (map (\<lambda>s. sf ! index s) (filter (\<lambda>s. tierOf s = tierOf x) xs))"
    using nonneg by (intro sum_list_nonneg) auto
  have sT: "?s \<le> ?T" using T_eq f_ge by linarith
  have TB: "?T \<le> B" using T_eq f_le Cons.prems(3) by simp
  have B1: "1 \<le> B" using s1 sT TB by linarith
  have rest_le: "sum_list (map (\<lambda>s. sf ! index s) xs) \<le> B" using Cons.prems(3) s1 by simp
  have E0: "0 \<le> ?E" by (rule Cons.prems(1))
  have "?E * ?s \<le> ?E * B" using E0 sT TB by (intro mult_left_mono) auto
  then have es: "\<bar>?E * ?s\<bar> < 2 ^ 53" using Cons.prems(5) E0 s1 by (simp add: abs_mult)
  have Tb: "\<bar>?T\<bar> < 2 ^ 53" "?T \<noteq> 0" using TB Cons.prems(4) sT s1 by auto
  have fs: "floatShare ?E ?s ?T = Some ((?E * ?s) sdiv ?T)"
    using es Tb by (simp add: floatShare_def)
  note sb = sdiv_share_bounds [OF E0 s1 sT]
  obtain sz where sz: "sectionSize ?s x ?st0 = Some sz"
    and szb: "minSize x \<le> sz" "sz - minSize x \<le> ?E"
    using fs sb by (cases "minSize x < maxSize x")
      (auto simp: sectionSize_def excessSpace_def Let_def)
  define st1 where "st1 = \<lparr>ds_space = ds_space st - (sz + sp),
                   ds_minSizesRemaining = ds_minSizesRemaining st - minSize x,
                   ds_spacingRemaining = ds_spacingRemaining st - sp,
                   ds_stretchFactorsRemaining = ?T - ?s,
                   ds_sizes = (ds_sizes st)[index x := sz]\<rparr>"
  have step: "assignSection sf sp x ?st0 = Some st1"
    using kx sz by (simp add: assignSection_def st1_def Let_def)
  have E1: "excessSpace st1 = ?E - (sz - minSize x)"
    by (simp add: excessSpace_def st1_def)
  have E1b: "0 \<le> excessSpace st1" "excessSpace st1 \<le> ?E" using E1 szb by auto
  have "excessSpace st1 * B \<le> ?E * B" using E1b B1 by (intro mult_right_mono) auto
  then have b1: "excessSpace st1 * B < 2 ^ 53" using Cons.prems(5) by linarith
  have idx1: "\<forall>y \<in> set xs. index y < length sf \<and> index y < length (ds_sizes st1) \<and> 1 \<le> sf ! index y"
    using Cons.prems(2) by (simp add: st1_def)
  from Cons.IH [OF E1b(1) idx1 rest_le Cons.prems(4) b1]
  obtain st' where "assignFlat sf sp xs st1 = Some st'" "0 \<le> excessSpace st'"
    "excessSpace st' \<le> excessSpace st1" by blast
  then show ?case using step E1b by auto
qed

lemma visitCell_index:
  "visitCell li ori widths i j s = Some s' \<Longrightarrow> index s' = index s \<and> stretch s' = stretch s"
  by (auto simp: visitCell_def visitHorz_def visitVert_def vertMinSize_def
                 vertMaxSizeAndFlags_def Let_def
           split: option.splits if_splits Orientation.splits)

lemma scanSection_index:
  "scanSection li ori widths i js s = Some s' \<Longrightarrow> index s' = index s \<and> stretch s' = stretch s"
proof (induction js arbitrary: s)
  case Nil
  then show ?case by simp
next
  case (Cons j js)
  then show ?case by (auto split: option.splits dest: visitCell_index)
qed

lemma sectionInfosFrom_index:
  "sectionInfosFrom li ori widths is = Some secs \<Longrightarrow> map index secs = is"
proof (induction "is" arbitrary: secs)
  case Nil
  then show ?case by simp
next
  case (Cons i "is")
  then show ?case
    by (auto simp: sectionInfo_def split: option.splits dest: scanSection_index)
qed

lemma sectionInfos_index:
  "sectionInfos li ori widths = Some secs \<Longrightarrow>
     map index secs = [0 ..< length (stretchFactorsOf li ori)]"
  by (simp add: sectionInfos_def sectionInfosFrom_index)

lemma sum_index_perm:
  fixes f :: "nat \<Rightarrow> int"
  assumes "mset (map index xs) = mset [0 ..< n]"
  shows "sum_list (map (\<lambda>s. f (index s)) xs) = sum_list (map f [0 ..< n])"
proof -
  have "mset (map f (map index xs)) = mset (map f [0 ..< n])"
    using assms by (metis mset_map)
  then have "sum_mset (mset (map f (map index xs))) = sum_mset (mset (map f [0 ..< n]))"
    by (simp only:)
  then have "sum_list (map f (map index xs)) = sum_list (map f [0 ..< n])"
    by (simp only: sum_mset_sum_list)
  then show ?thesis by (simp add: comp_def)
qed

lemma sum_nth_all: "sum_list (map ((!) xs) [0 ..< length xs]) = sum_list xs"
  by (simp add: map_nth)

lemma sum_map_sortStable:
  fixes f :: "'a \<Rightarrow> int"
  shows "sum_list (map f (sortStable lt xs)) = sum_list (map f xs)"
  using sum_filter_sortStable [of f "\<lambda>x. True" lt xs] by simp

lemma order_indices:
  assumes "map index secs = [0 ..< n]"
  shows "mset (map index (sortStable Less secs)) = mset [0 ..< n]"
    and "distinct (map index (sortStable Less secs))"
proof -
  show m: "mset (map index (sortStable Less secs)) = mset [0 ..< n]"
    using assms by (metis mset_map mset_sortStable)
  have "distinct [0 ..< n]" by simp
  then show "distinct (map index (sortStable Less secs))"
    using m by (metis mset_eq_imp_distinct_iff)
qed

lemma sum_add_const:
  fixes f :: "'a \<Rightarrow> int"
  shows "sum_list (map (\<lambda>q. f q + c) xs) = sum_list (map f xs) + c * int (length xs)"
  by (induction xs) (auto simp: algebra_simps)

lemma distribute_flat:
  "distributeSpace sf sp space secs =
     map_option ds_sizes (assignFlat sf sp (sortStable Less secs) (distInit sf sp space secs))"
  unfolding distributeSpace_def distInit_def by (rule assignTiers_flat)

lemma floatShare_Some: "floatShare e s t = Some v \<Longrightarrow> v = (e * s) sdiv t"
  by (simp add: floatShare_def split: if_splits)

lemma distributeSpace_section:
  assumes idx: "map index secs = [0 ..< length sf]"
    and run: "distributeSpace sf sp space secs = Some sizes"
    and ord: "sortStable Less secs = pre @ x # post"
  shows "sizes ! index x = specSize sf sp space secs sizes pre x post"
proof -
  let ?init = "distInit sf sp space secs"
  from run obtain st' where
    flat: "assignFlat sf sp (pre @ x # post) ?init = Some st'" and sz: "ds_sizes st' = sizes"
    by (auto simp: distribute_flat ord)
  have dist: "distinct (map index (pre @ x # post))"
    using order_indices(2) [OF idx] ord by simp
  have mins: "sum_list (map minSize secs) = sum_list (map minSize (pre @ x # post))"
    using sum_map_sortStable [of minSize Less secs] ord by simp
  have m: "ds_minSizesRemaining ?init - sum_list (map minSize pre) = remainingMinSizes (x # post)"
    using mins by (simp add: distInit_def remainingMinSizes_def)
  have s: "ds_space ?init - sum_list (map (\<lambda>q. sizes ! index q + sp) pre)
             = remainingSpace space sp sizes pre"
    by (simp add: distInit_def remainingSpace_def)
  have p: "ds_spacingRemaining ?init - sp * int (length pre) = remainingSpacing sp secs pre"
    by (simp add: distInit_def remainingSpacing_def)
  from flat_section [OF flat dist, of "[]"]
  have "sectionSize (sf ! index x) x
          \<lparr>ds_space = remainingSpace space sp sizes pre,
           ds_minSizesRemaining = remainingMinSizes (x # post),
           ds_spacingRemaining = remainingSpacing sp secs pre,
           ds_stretchFactorsRemaining = remainingStretch sf x post,
           ds_sizes = []\<rparr> = Some (sizes ! index x)"
    unfolding sz by (simp only: m s p)
  then show ?thesis
    by (auto simp: sectionSize_def specSize_def clampTo_def Let_def
             split: if_splits dest!: floatShare_Some)
qed

lemma distributeSpace_sum:
  assumes idx: "map index secs = [0 ..< length sf]"
    and pos: "list_all (\<lambda>s. 1 \<le> s) sf"
    and E0: "0 \<le> space - sum_list (map minSize secs) - spacingRemainingInit sp secs"
    and B: "sum_list sf < 2 ^ 53"
    and EB: "(space - sum_list (map minSize secs) - spacingRemainingInit sp secs) * sum_list sf
               < 2 ^ 53"
  shows "\<exists>sizes. distributeSpace sf sp space secs = Some sizes \<and> length sizes = length sf
           \<and> sum_list sizes + spacingRemainingInit sp secs \<le> space"
proof -
  let ?init = "distInit sf sp space secs"
  let ?xs = "sortStable Less secs"
  let ?n = "length sf"
  have perm: "mset (map index ?xs) = mset [0 ..< ?n]" and dist: "distinct (map index ?xs)"
    using order_indices [OF idx] by auto
  have set_idx: "index ` set ?xs = {0 ..< ?n}"
    using perm by (metis set_map set_mset_mset set_upt)
  have len: "length ?xs = ?n"
    using idx by (metis length_map length_sortStable length_upt minus_nat.diff_0)
  have e0: "0 \<le> excessSpace ?init" using E0 by (simp add: excessSpace_def distInit_def)
  have ix: "\<forall>x \<in> set ?xs. index x < length sf \<and> index x < length (ds_sizes ?init)
               \<and> 1 \<le> sf ! index x"
  proof
    fix x assume "x \<in> set ?xs"
    then have "index x < ?n" using set_idx by auto
    then show "index x < length sf \<and> index x < length (ds_sizes ?init) \<and> 1 \<le> sf ! index x"
      using pos by (simp add: distInit_def list_all_length)
  qed
  have tot: "sum_list (map (\<lambda>s. sf ! index s) ?xs) = sum_list sf"
    using sum_index_perm [OF perm, of "(!) sf"] by (simp add: sum_nth_all)
  have eb: "excessSpace ?init * sum_list sf < 2 ^ 53"
    using EB by (simp add: excessSpace_def distInit_def)
  from flat_exists [OF e0 ix _ B eb, of sp] tot
  obtain st' where flat: "assignFlat sf sp ?xs ?init = Some st'" and e': "0 \<le> excessSpace st'"
    by auto
  note fr = flat_frame [OF flat dist]
  let ?sizes = "ds_sizes st'"
  have l: "length ?sizes = ?n" using fr by (simp add: distInit_def)
  have ssum: "sum_list (map (\<lambda>q. ?sizes ! index q) ?xs) = sum_list ?sizes"
    using sum_index_perm [OF perm, of "(!) ?sizes"] l sum_nth_all [of ?sizes] by simp
  have sp': "ds_space st' = space - (sum_list ?sizes + sp * int ?n)"
    using fr ssum len by (simp add: sum_add_const distInit_def)
  have mn: "ds_minSizesRemaining st' = 0"
    using fr sum_map_sortStable [of minSize Less secs] by (simp add: distInit_def)
  have sr: "ds_spacingRemaining st' = spacingRemainingInit sp secs - sp * int ?n"
    using fr len by (simp add: distInit_def)
  have "sum_list ?sizes + spacingRemainingInit sp secs \<le> space"
    using e' sp' mn sr by (simp add: excessSpace_def)
  then show ?thesis using flat l by (simp add: distribute_flat)
qed

section \<open>The sizes of the sections\<close>

lemma twoColumns_secs:
  "sectionInfos twoColumns Horizontal [] = Some [plainSection 0 50, plainSection 1 50]"
  by code_simp

lemma twoColumns_220: "sectionSizesForSpace twoColumns Horizontal 220 [] = Some [98, 98]"
  by code_simp

lemma twoColumns_order:
  "assignmentOrder [plainSection 0 50, plainSection 1 50] = [] @ plainSection 0 50 # [plainSection 1 50]"
  by code_simp

lemma twoColumns_distributable:
  "distributable twoColumns Horizontal 220 [plainSection 0 50, plainSection 1 50]"
  by code_simp

text \<open>
  C1 (amended). Let the scan of the sections succeed. Whenever \<^verbatim>\<open>sectionSizesForSpace\<close>
  returns, every section \<open>x\<close> of the assignment order, with the sections \<open>pre\<close> assigned
  before it and the sections \<open>post\<close> after it, has the size \<open>specSize\<close>: its minimum when
  the minimum is not below the maximum, and otherwise its minimum plus the truncated
  quotient of the remaining excess space (remaining space minus remaining minimum sizes
  minus remaining spacing) times its stretch factor by the remaining stretch factors of
  its tier, clamped to the minimum and the maximum. When moreover every stretch factor is
  at least 1, the space covers the margins, the minimum sizes and the spacing, and the
  numbers are in the range where float64 is exact, the function returns sizes whose sum
  plus the spacing plus the margins does not exceed the space.
\<close>

theorem sectionSizesForSpace_assignment:
  assumes "sectionInfos li orientation widths = Some secs"
  shows "(\<forall>sizes pre x post.
            sectionSizesForSpace li orientation space widths = Some sizes
            \<and> assignmentOrder secs = pre @ x # post
            \<longrightarrow> sizes ! index x
                  = specSize (stretchFactorsOf li orientation) (li_spacingPixels li)
                      (space - marginsOf li orientation) secs sizes pre x post)
       \<and> (distributable li orientation space secs
            \<longrightarrow> (\<exists>sizes. sectionSizesForSpace li orientation space widths = Some sizes
                    \<and> length sizes = length (stretchFactorsOf li orientation)
                    \<and> sum_list sizes + spacingRemainingInit (li_spacingPixels li) secs
                        + marginsOf li orientation \<le> space))"
proof (intro conjI allI impI)
  fix sizes pre x post
  assume a: "sectionSizesForSpace li orientation space widths = Some sizes
            \<and> assignmentOrder secs = pre @ x # post"
  have idx: "map index secs = [0 ..< length (stretchFactorsOf li orientation)]"
    using assms by (rule sectionInfos_index)
  have run: "distributeSpace (stretchFactorsOf li orientation) (li_spacingPixels li)
               (space - marginsOf li orientation) secs = Some sizes"
    using a assms by (simp add: sectionSizesForSpace_def)
  have ord: "sortStable Less secs = pre @ x # post"
    using a by (simp add: assignmentOrder_sorted)
  show "sizes ! index x
          = specSize (stretchFactorsOf li orientation) (li_spacingPixels li)
              (space - marginsOf li orientation) secs sizes pre x post"
    using idx run ord by (rule distributeSpace_section)
next
  assume d: "distributable li orientation space secs"
  have idx: "map index secs = [0 ..< length (stretchFactorsOf li orientation)]"
    using assms by (rule sectionInfos_index)
  let ?sp = "space - marginsOf li orientation"
  have e: "?sp - sum_list (map minSize secs) - spacingRemainingInit (li_spacingPixels li) secs
             = excessInit li orientation space secs"
    by (simp add: excessInit_def)
  from d have
    pos: "list_all (\<lambda>s. 1 \<le> s) (stretchFactorsOf li orientation)"
    and E0: "0 \<le> ?sp - sum_list (map minSize secs) - spacingRemainingInit (li_spacingPixels li) secs"
    and B: "sum_list (stretchFactorsOf li orientation) < 2 ^ 53"
    and EB: "(?sp - sum_list (map minSize secs) - spacingRemainingInit (li_spacingPixels li) secs)
               * sum_list (stretchFactorsOf li orientation) < 2 ^ 53"
    unfolding e by (simp_all add: distributable_def)
  from distributeSpace_sum [OF idx pos E0 B EB]
  show "\<exists>sizes. sectionSizesForSpace li orientation space widths = Some sizes
          \<and> length sizes = length (stretchFactorsOf li orientation)
          \<and> sum_list sizes + spacingRemainingInit (li_spacingPixels li) secs
              + marginsOf li orientation \<le> space"
    using assms by (auto simp: sectionSizesForSpace_def)
qed

theorem sectionSizesForSpace_assignment_witness:
  "sectionInfos twoColumns Horizontal [] = Some [plainSection 0 50, plainSection 1 50]
   \<and> sectionSizesForSpace twoColumns Horizontal 220 [] = Some [98, 98]
   \<and> assignmentOrder [plainSection 0 50, plainSection 1 50]
       = [] @ plainSection 0 50 # [plainSection 1 50]
   \<and> [98, 98] ! index (plainSection 0 50)
       = specSize (stretchFactorsOf twoColumns Horizontal) (li_spacingPixels twoColumns)
           (220 - marginsOf twoColumns Horizontal) [plainSection 0 50, plainSection 1 50]
           [98, 98] [] (plainSection 0 50) [plainSection 1 50]
   \<and> distributable twoColumns Horizontal 220 [plainSection 0 50, plainSection 1 50]
   \<and> (\<exists>sizes. sectionSizesForSpace twoColumns Horizontal 220 [] = Some sizes
          \<and> sum_list sizes
               + spacingRemainingInit (li_spacingPixels twoColumns)
                   [plainSection 0 50, plainSection 1 50]
               + marginsOf twoColumns Horizontal \<le> 220)"
proof -
  note t = sectionSizesForSpace_assignment [OF twoColumns_secs, of 220]
  from t twoColumns_220 twoColumns_order
  have a: "[98, 98] ! index (plainSection 0 50)
       = specSize (stretchFactorsOf twoColumns Horizontal) (li_spacingPixels twoColumns)
           (220 - marginsOf twoColumns Horizontal) [plainSection 0 50, plainSection 1 50]
           [98, 98] [] (plainSection 0 50) [plainSection 1 50]"
    by blast
  from t twoColumns_distributable
  have b: "\<exists>sizes. sectionSizesForSpace twoColumns Horizontal 220 [] = Some sizes
          \<and> sum_list sizes
               + spacingRemainingInit (li_spacingPixels twoColumns)
                   [plainSection 0 50, plainSection 1 50]
               + marginsOf twoColumns Horizontal \<le> 220"
    by blast
  from twoColumns_secs twoColumns_220 twoColumns_order a twoColumns_distributable b
  show ?thesis by blast
qed

text \<open>
  The sum is not bounded by the space for every input: with 50 pixels for two columns of
  minimum width 50, both columns keep their minimum.
\<close>

theorem sectionSizesForSpace_exceeds_counterexample:
  "sectionSizesForSpace twoColumns Horizontal 50 [] = Some [50, 50]
   \<and> \<not> (sum_list [50, 50]
            + spacingRemainingInit (li_spacingPixels twoColumns)
                [plainSection 0 50, plainSection 1 50]
            + marginsOf twoColumns Horizontal \<le> 50)"
  by code_simp

text \<open>
  C3. Two columns of stretch factor 1 and minimum width 50 without maximum, margins 9 on
  both sides, spacing 6, total space 220: the margins take 18, the excess space is 96,
  and both columns get 98.
\<close>

theorem twoColumns_98_98:
  "sectionSizesForSpace twoColumns Horizontal 220 [] = Some [98, 98]
   \<and> marginsOf twoColumns Horizontal = 18
   \<and> excessInit twoColumns Horizontal 220 [plainSection 0 50, plainSection 1 50] = 96
   \<and> sectionInfos twoColumns Horizontal [] = Some [plainSection 0 50, plainSection 1 50]"
  by code_simp

section \<open>The scan of the sections and the order of assignment\<close>

lemma maxPixel_max: "maxPixel a b = max a b"
  by (simp add: maxPixel_def max_def)

lemma visitHorz_flags:
  "hasGreedyNonSpacer (visitHorz item info s) =
     (hasGreedyNonSpacer s \<or> (ii_spanHorz info = 1 \<and> GreedyHorz \<in> LayoutFlags item \<and> \<not> isSpacer item))"
  "hasGreedySpacer (visitHorz item info s) =
     (hasGreedySpacer s \<or> (ii_spanHorz info = 1 \<and> GreedyHorz \<in> LayoutFlags item \<and> isSpacer item))"
  by (simp_all add: visitHorz_def Let_def)

lemma visitHorz_minSize:
  "minSize (visitHorz item info s) =
     (if ii_spanHorz info = 1 then max (minSize s) (Width (MinSizeEffective item)) else minSize s)"
  by (simp add: visitHorz_def Let_def maxPixel_max)

lemma vertMaxSizeAndFlags_effect:
  "hasGreedyNonSpacer (vertMaxSizeAndFlags item info s) =
     (hasGreedyNonSpacer s \<or> (ii_spanVert info = 1 \<and> GreedyVert \<in> LayoutFlags item \<and> \<not> isSpacer item))"
  "hasGreedySpacer (vertMaxSizeAndFlags item info s) =
     (hasGreedySpacer s \<or> (ii_spanVert info = 1 \<and> GreedyVert \<in> LayoutFlags item \<and> isSpacer item))"
  "minSize (vertMaxSizeAndFlags item info s) = minSize s"
  by (auto simp: vertMaxSizeAndFlags_def Let_def)

lemma vertMinSize_effect:
  assumes "vertMinSize li widths item info s = Some s1"
  shows "hasGreedyNonSpacer s1 = hasGreedyNonSpacer s"
    and "hasGreedySpacer s1 = hasGreedySpacer s"
    and "minSize s1 =
     (if ii_spanVert info = 1
      then (case vertMin li widths item info of Some c \<Rightarrow> max (minSize s) c | None \<Rightarrow> minSize s)
      else minSize s)"
  using assms
  by (auto simp: vertMinSize_def vertMin_def maxPixel_max split: option.splits if_splits)

lemma visitVert_flags:
  assumes "visitVert li widths item info s = Some s'"
  shows "hasGreedyNonSpacer s' =
     (hasGreedyNonSpacer s \<or> (ii_spanVert info = 1 \<and> GreedyVert \<in> LayoutFlags item \<and> \<not> isSpacer item))"
    and "hasGreedySpacer s' =
     (hasGreedySpacer s \<or> (ii_spanVert info = 1 \<and> GreedyVert \<in> LayoutFlags item \<and> isSpacer item))"
    and "minSize s' =
     (if ii_spanVert info = 1
      then (case vertMin li widths item info of Some c \<Rightarrow> max (minSize s) c | None \<Rightarrow> minSize s)
      else minSize s)"
proof -
  from assms obtain s1 where s1: "vertMinSize li widths item info s = Some s1"
    and r: "s' = vertMaxSizeAndFlags item info s1"
    by (auto simp: visitVert_def)
  show "hasGreedyNonSpacer s' =
     (hasGreedyNonSpacer s \<or> (ii_spanVert info = 1 \<and> GreedyVert \<in> LayoutFlags item \<and> \<not> isSpacer item))"
    by (simp only: r vertMaxSizeAndFlags_effect vertMinSize_effect [OF s1])
  show "hasGreedySpacer s' =
     (hasGreedySpacer s \<or> (ii_spanVert info = 1 \<and> GreedyVert \<in> LayoutFlags item \<and> isSpacer item))"
    by (simp only: r vertMaxSizeAndFlags_effect vertMinSize_effect [OF s1])
  show "minSize s' =
     (if ii_spanVert info = 1
      then (case vertMin li widths item info of Some c \<Rightarrow> max (minSize s) c | None \<Rightarrow> minSize s)
      else minSize s)"
    by (simp only: r vertMaxSizeAndFlags_effect vertMinSize_effect [OF s1])
qed

lemma minContribution_alt:
  "minContribution li ori widths i j =
     (case laidOutItem li ori i j of
        Some p \<Rightarrow>
          if spanOn ori (snd p) = 1 then
            (case ori of
               Horizontal \<Rightarrow> Some (Width (MinSizeEffective (fst p)))
             | Vertical \<Rightarrow> vertMin li widths (fst p) (snd p))
          else None
      | None \<Rightarrow> None)"
  by (simp add: minContribution_def vertMin_def split: option.splits Orientation.splits)

lemma visitCell_cases:
  assumes "visitCell li ori widths i j s = Some s'"
  shows "(laidOutItem li ori i j = None \<and> s' = s)
       \<or> (\<exists>item info. laidOutItem li ori i j = Some (item, info)
             \<and> (case ori of
                   Horizontal \<Rightarrow> s' = visitHorz item info s
                 | Vertical \<Rightarrow> visitVert li widths item info s = Some s'))"
  using assms
  by (cases "case ori of Horizontal \<Rightarrow> cellItem li j i | Vertical \<Rightarrow> cellItem li i j")
     (auto simp: visitCell_def laidOutItem_def split: option.splits if_splits Orientation.splits)

lemma visitCell_effect:
  assumes "visitCell li ori widths i j s = Some s'"
  shows "hasGreedyNonSpacer s' = (hasGreedyNonSpacer s \<or> singleSpanGreedy li ori i j False)
   \<and> hasGreedySpacer s' = (hasGreedySpacer s \<or> singleSpanGreedy li ori i j True)
   \<and> minSize s' = (case minContribution li ori widths i j of
                     Some c \<Rightarrow> max (minSize s) c | None \<Rightarrow> minSize s)"
proof -
  from visitCell_cases [OF assms] show ?thesis
  proof (elim disjE conjE exE)
    assume "laidOutItem li ori i j = None" "s' = s"
    then show ?thesis by (simp add: singleSpanGreedy_def minContribution_alt)
  next
    fix item info
    assume l: "laidOutItem li ori i j = Some (item, info)"
      and c: "case ori of Horizontal \<Rightarrow> s' = visitHorz item info s
              | Vertical \<Rightarrow> visitVert li widths item info s = Some s'"
    show ?thesis
    proof (cases ori)
      case Horizontal
      then have "s' = visitHorz item info s" using c by simp
      then show ?thesis using l Horizontal
        by (simp add: visitHorz_flags visitHorz_minSize singleSpanGreedy_def minContribution_alt
              spanOn_def greedyOn_def)
    next
      case Vertical
      then have v: "visitVert li widths item info s = Some s'" using c by simp
      show ?thesis using l Vertical visitVert_flags [OF v]
        by (simp add: singleSpanGreedy_def minContribution_alt spanOn_def greedyOn_def)
    qed
  qed
qed

lemma scanSection_effect:
  "scanSection li ori widths i js s = Some s' \<Longrightarrow>
     hasGreedyNonSpacer s' = (hasGreedyNonSpacer s \<or> (\<exists>j \<in> set js. singleSpanGreedy li ori i j False))
   \<and> hasGreedySpacer s' = (hasGreedySpacer s \<or> (\<exists>j \<in> set js. singleSpanGreedy li ori i j True))
   \<and> minSize s' = fold max (List.map_filter (minContribution li ori widths i) js) (minSize s)"
proof (induction js arbitrary: s)
  case Nil
  then show ?case by (simp add: List.map_filter_simps)
next
  case (Cons j js)
  from Cons.prems obtain s1 where
    v: "visitCell li ori widths i j s = Some s1" and r: "scanSection li ori widths i js s1 = Some s'"
    by (auto split: option.splits)
  note e = visitCell_effect [OF v]
  note ih = Cons.IH [OF r]
  show ?case
  proof (intro conjI)
    show "hasGreedyNonSpacer s' =
            (hasGreedyNonSpacer s \<or> (\<exists>j \<in> set (j # js). singleSpanGreedy li ori i j False))"
      using e ih by auto
    show "hasGreedySpacer s' =
            (hasGreedySpacer s \<or> (\<exists>j \<in> set (j # js). singleSpanGreedy li ori i j True))"
      using e ih by auto
    show "minSize s' = fold max (List.map_filter (minContribution li ori widths i) (j # js)) (minSize s)"
      using e ih by (cases "minContribution li ori widths i j")
        (simp_all add: List.map_filter_simps max.commute)
  qed
qed

lemma sectionInfosFrom_nth:
  "sectionInfosFrom li ori widths is = Some secs \<Longrightarrow>
     length secs = length is \<and> (\<forall>k < length is. sectionInfo li ori widths (is ! k) = Some (secs ! k))"
proof (induction "is" arbitrary: secs)
  case Nil
  then show ?case by simp
next
  case (Cons i "is")
  from Cons.prems obtain s rest where
    s: "sectionInfo li ori widths i = Some s" and r: "sectionInfosFrom li ori widths is = Some rest"
    and secs: "secs = s # rest"
    by (auto split: option.splits)
  from Cons.IH [OF r] s secs show ?case by (auto simp: nth_Cons split: nat.splits)
qed

lemma sectionInfos_nth:
  assumes "sectionInfos li ori widths = Some secs"
  shows "length secs = length (stretchFactorsOf li ori)"
    and "i < length secs \<Longrightarrow> sectionInfo li ori widths i = Some (secs ! i)"
  using sectionInfosFrom_nth [OF assms [unfolded sectionInfos_def]] by auto

lemma fold_max_Max: "fold max xs (x::int) = Max (set (x # xs))"
  by (simp only: Max.set_eq_fold)

lemma sectionInfo_effect:
  assumes "sectionInfo li ori widths i = Some s"
  shows "hasGreedyNonSpacer s = (\<exists>j < otherAxisCount li ori. singleSpanGreedy li ori i j False)"
    and "hasGreedySpacer s = (\<exists>j < otherAxisCount li ori. singleSpanGreedy li ori i j True)"
    and "minSize s = Max (set (0 # List.map_filter (minContribution li ori widths i)
                                    [0 ..< otherAxisCount li ori]))"
  using scanSection_effect [OF assms [unfolded sectionInfo_def]]
  by (auto simp: fold_max_Max)

lemma insertStable_precedes:
  "sorted_wrt precedes ys \<Longrightarrow> \<forall>y \<in> set ys. index x < index y \<Longrightarrow>
     sorted_wrt precedes (insertStable Less x ys)"
proof (induction ys)
  case Nil
  then show ?case by simp
next
  case (Cons y ys)
  show ?case
  proof (cases "Less y x")
    case True
    then have "precedes y x" by (simp add: precedes_def)
    then show ?thesis using True Cons by (auto simp: set_insertStable)
  next
    case False
    have xy: "precedes x y" using False Cons.prems(2) by (simp add: precedes_def)
    have "precedes x z" if "z \<in> set ys" for z
    proof -
      have "precedes y z" using Cons.prems(1) that by simp
      then have "\<not> Less z y" using Less_asym by (auto simp: precedes_def)
      then have "\<not> Less z x" using False Less_negtrans by blast
      moreover have "index x < index z" using Cons.prems(2) that by simp
      ultimately show ?thesis by (simp add: precedes_def)
    qed
    then show ?thesis using False xy Cons.prems(1) by auto
  qed
qed

lemma sortStable_precedes:
  "sorted_wrt (\<lambda>a b. index a < index b) xs \<Longrightarrow> sorted_wrt precedes (sortStable Less xs)"
proof (induction xs)
  case Nil
  then show ?case by (simp add: sortStable_def)
next
  case (Cons x xs)
  have s: "sorted_wrt precedes (sortStable Less xs)" using Cons by simp
  have "set (sortStable Less xs) = set xs" by (metis mset_sortStable set_mset_mset)
  then have "\<forall>y \<in> set (sortStable Less xs). index x < index y" using Cons.prems by simp
  from insertStable_precedes [OF s this] show ?case by (simp add: sortStable_def)
qed

lemma precedes_flags:
  "precedes a b \<Longrightarrow> tierOf a = tierOf b \<Longrightarrow> hasGreedySpacer b \<Longrightarrow> hasGreedySpacer a"
  by (auto simp: precedes_def Less_def tierOf_def Let_def split: if_splits)

lemma precedes_key:
  "precedes a b \<Longrightarrow> tierOf a = tierOf b \<Longrightarrow> hasGreedySpacer a = hasGreedySpacer b \<Longrightarrow>
     keyOrdered a b"
  by (auto simp: precedes_def Less_def tierOf_def keyOrdered_def ratio_def Let_def
           split: if_splits)

lemma sectionInfos_tier:
  assumes "sectionInfos li ori widths = Some secs" "i < length secs"
  shows "tierOf (secs ! i) = specTier li ori i"
  using sectionInfo_effect(1,2) [OF sectionInfos_nth(2) [OF assms]]
  by (simp add: tierOf_def specTier_def)

text \<open>
  C2 (amended). The sections are assigned in the order \<open>assignmentOrder\<close>, every section
  once. Sections containing a single-span greedy item that is no spacer come first, then
  sections containing a single-span greedy spacer and no such item, then all others, so a
  section of a higher tier is assigned before every section of a lower tier. Within a
  tier, sections with a greedy spacer come before sections without one (this separates
  sections of the first tier only), and sections with the same flags are ordered by
  larger minimum size first, then smaller truncated quotient of maximum size by effective
  stretch factor, then original position.
\<close>

theorem assignmentOrder_tiers:
  assumes "sectionInfos li orientation widths = Some secs"
  shows "(\<forall>i < length secs. tierOf (secs ! i) = specTier li orientation i)
       \<and> mset (assignmentOrder secs) = mset secs
       \<and> sorted_wrt (\<lambda>a b. tierOf a \<le> tierOf b) (assignmentOrder secs)
       \<and> sorted_wrt (\<lambda>a b. tierOf a = tierOf b \<and> hasGreedySpacer b \<longrightarrow> hasGreedySpacer a)
           (assignmentOrder secs)
       \<and> sorted_wrt (\<lambda>a b. tierOf a = tierOf b \<and> hasGreedySpacer a = hasGreedySpacer b
                            \<longrightarrow> keyOrdered a b)
           (assignmentOrder secs)"
proof -
  have idx: "map index secs = [0 ..< length (stretchFactorsOf li orientation)]"
    using assms by (rule sectionInfos_index)
  have "sorted_wrt (<) (map index secs)" unfolding idx by simp
  then have "sorted_wrt (\<lambda>a b. index a < index b) secs" by (simp add: sorted_wrt_map)
  then have p: "sorted_wrt precedes (assignmentOrder secs)"
    unfolding assignmentOrder_sorted by (rule sortStable_precedes)
  have t: "\<forall>i < length secs. tierOf (secs ! i) = specTier li orientation i"
    using sectionInfos_tier [OF assms] by blast
  have m: "mset (assignmentOrder secs) = mset secs"
    by (simp add: assignmentOrder_sorted mset_sortStable)
  have o: "sorted_wrt (\<lambda>a b. tierOf a \<le> tierOf b) (assignmentOrder secs)"
    unfolding assignmentOrder_sorted by (rule sorted_tiers)
  have f: "sorted_wrt (\<lambda>a b. tierOf a = tierOf b \<and> hasGreedySpacer b \<longrightarrow> hasGreedySpacer a)
             (assignmentOrder secs)"
    by (rule sorted_wrt_mono_rel [OF _ p]) (auto dest: precedes_flags)
  have k: "sorted_wrt (\<lambda>a b. tierOf a = tierOf b \<and> hasGreedySpacer a = hasGreedySpacer b
                              \<longrightarrow> keyOrdered a b) (assignmentOrder secs)"
    by (rule sorted_wrt_mono_rel [OF _ p]) (auto dest: precedes_key)
  from t m o f k show ?thesis by blast
qed

lemma sectionInfos_minSize:
  assumes "sectionInfos li orientation widths = Some secs"
  shows "\<forall>i < length secs.
           minSize (secs ! i)
             = Max (set (0 # List.map_filter (minContribution li orientation widths i)
                               [0 ..< otherAxisCount li orientation]))
           \<and> ((\<forall>j < otherAxisCount li orientation. \<forall>p.
                  laidOutItem li orientation i j = Some p \<longrightarrow> spanOn orientation (snd p) \<noteq> 1)
                \<longrightarrow> minSize (secs ! i) = 0)"
proof (intro allI impI)
  fix i assume i: "i < length secs"
  note e = sectionInfo_effect(3) [OF sectionInfos_nth(2) [OF assms i]]
  have z: "minSize (secs ! i) = 0"
    if a: "\<forall>j < otherAxisCount li orientation. \<forall>p.
            laidOutItem li orientation i j = Some p \<longrightarrow> spanOn orientation (snd p) \<noteq> 1"
  proof -
    have "minContribution li orientation widths i j = None"
      if "j \<in> set [0 ..< otherAxisCount li orientation]" for j
      using a that by (auto simp: minContribution_def split: option.splits)
    then have "List.map_filter (minContribution li orientation widths i)
                 [0 ..< otherAxisCount li orientation] = []"
      by (auto simp: List.map_filter_def filter_empty_conv)
    then show ?thesis using e by simp
  qed
  from e z show "minSize (secs ! i)
             = Max (set (0 # List.map_filter (minContribution li orientation widths i)
                               [0 ..< otherAxisCount li orientation]))
           \<and> ((\<forall>j < otherAxisCount li orientation. \<forall>p.
                  laidOutItem li orientation i j = Some p \<longrightarrow> spanOn orientation (snd p) \<noteq> 1)
                \<longrightarrow> minSize (secs ! i) = 0)"
    by blast
qed

lemma mixedColumns_secs:
  "sectionInfos mixedColumns Horizontal [] = Some [mixedSection0, mixedSection1]"
  by code_simp

theorem assignmentOrder_tiers_witness:
  "sectionInfos mixedColumns Horizontal [] = Some [mixedSection0, mixedSection1]
   \<and> mset (assignmentOrder [mixedSection0, mixedSection1]) = mset [mixedSection0, mixedSection1]
   \<and> sorted_wrt (\<lambda>a b. tierOf a \<le> tierOf b) (assignmentOrder [mixedSection0, mixedSection1])
   \<and> tierOf ([mixedSection0, mixedSection1] ! 1) = specTier mixedColumns Horizontal 1"
proof -
  note t = assignmentOrder_tiers [OF mixedColumns_secs]
  have "(1::nat) < length [mixedSection0, mixedSection1]" by simp
  with t have "tierOf ([mixedSection0, mixedSection1] ! 1) = specTier mixedColumns Horizontal 1"
    by blast
  with t mixedColumns_secs show ?thesis by blast
qed

text \<open>
  Within the first tier the order is not by minimum size alone: both columns hold a
  greedy widget, column 1 has the smaller minimum size (10 against 50) and is assigned
  first, because it also holds a greedy spacer.
\<close>

theorem assignmentOrder_minSize_counterexample:
  "sectionInfos mixedColumns Horizontal [] = Some [mixedSection0, mixedSection1]
   \<and> assignmentOrder [mixedSection0, mixedSection1] = [mixedSection1, mixedSection0]
   \<and> tierOf mixedSection0 = 0 \<and> tierOf mixedSection1 = 0
   \<and> minSize mixedSection1 < minSize mixedSection0"
  by code_simp

lemma spanningOnly_secs:
  "sectionInfos spanningOnly Horizontal []
     = Some [plainSection 0 0, plainSection 1 0]"
  by code_simp


section \<open>The minimum size of the grid and its cache\<close>

lemma MinSizeForSize_hit:
  "li_cells li \<noteq> [] \<Longrightarrow> li_size2MinSize li sz = Some m \<Longrightarrow> MinSizeForSize li sz = Some (m, li)"
  by (simp add: MinSizeForSize_def)

lemma MinSizeForSize_result:
  assumes "MinSizeForSize li sz = Some (r, li')"
  shows "li' = li
       \<or> (li_cells li \<noteq> [] \<and> 0 < Width r \<and> 0 < Height r
           \<and> li' = li\<lparr>li_size2MinSize := (li_size2MinSize li)(sz \<mapsto> r)\<rparr>)"
  using assms
  by (auto simp: MinSizeForSize_def Let_def split: if_splits option.splits)

lemma MinSizeForSize_positive_cached:
  assumes "MinSizeForSize li sz = Some (r, li')" "li_cells li \<noteq> []" "0 < Width r" "0 < Height r"
  shows "li_size2MinSize li' sz = Some r"
  using assms
  by (auto simp: MinSizeForSize_def Let_def split: if_splits option.splits)

lemma CreateLayoutItem_cache_empty: "CreateLayoutItem l mk mp sp = Some li0 \<Longrightarrow> li_size2MinSize li0 = Map.empty"
  by (auto simp: CreateLayoutItem_def)

text \<open>
  C5 (amended). A second call of \<^verbatim>\<open>MinSizeForSize\<close> with the same candidate size on the
  snapshot as the first call left it returns the same size and leaves the snapshot as it
  is. When the grid has cells and the size returned has positive width and height, the
  first call leaves that size in the cache under the candidate size, and a call that
  finds an entry in the cache returns the entry whatever the rest of the snapshot holds.
  A new snapshot has an empty cache.
\<close>

theorem MinSizeForSize_idempotent_cached:
  "(\<forall>r li'. MinSizeForSize li sz = Some (r, li')
       \<longrightarrow> MinSizeForSize li' sz = Some (r, li')
           \<and> (li_cells li \<noteq> [] \<and> 0 < Width r \<and> 0 < Height r \<longrightarrow> li_size2MinSize li' sz = Some r))
   \<and> (\<forall>m. li_cells li \<noteq> [] \<and> li_size2MinSize li sz = Some m
          \<longrightarrow> MinSizeForSize li sz = Some (m, li))
   \<and> (\<forall>l mk mp sp li0. CreateLayoutItem l mk mp sp = Some li0
          \<longrightarrow> li_size2MinSize li0 = Map.empty)"
proof (intro conjI allI impI)
  fix r li'
  assume h: "MinSizeForSize li sz = Some (r, li')"
  from MinSizeForSize_result [OF h] show "MinSizeForSize li' sz = Some (r, li')"
  proof
    assume "li' = li"
    then show ?thesis using h by simp
  next
    assume "li_cells li \<noteq> [] \<and> 0 < Width r \<and> 0 < Height r
           \<and> li' = li\<lparr>li_size2MinSize := (li_size2MinSize li)(sz \<mapsto> r)\<rparr>"
    then show ?thesis by (intro MinSizeForSize_hit) simp_all
  qed
next
  fix r li'
  assume "MinSizeForSize li sz = Some (r, li')" "li_cells li \<noteq> [] \<and> 0 < Width r \<and> 0 < Height r"
  then show "li_size2MinSize li' sz = Some r"
    using MinSizeForSize_positive_cached by blast
next
  fix m
  assume "li_cells li \<noteq> [] \<and> li_size2MinSize li sz = Some m"
  then show "MinSizeForSize li sz = Some (m, li)" using MinSizeForSize_hit by blast
next
  fix l mk mp sp li0
  assume "CreateLayoutItem l mk mp sp = Some li0"
  then show "li_size2MinSize li0 = Map.empty" by (rule CreateLayoutItem_cache_empty)
qed

lemma twoColumns_minSize:
  "map_option fst (MinSizeForSize twoColumns \<lparr>Width = 200, Height = 100\<rparr>)
     = Some \<lparr>Width = 124, Height = 38\<rparr>"
  by code_simp

theorem MinSizeForSize_idempotent_cached_witness:
  "li_cells twoColumns \<noteq> []
   \<and> (\<exists>li'. MinSizeForSize twoColumns \<lparr>Width = 200, Height = 100\<rparr>
                = Some (\<lparr>Width = 124, Height = 38\<rparr>, li')
            \<and> MinSizeForSize li' \<lparr>Width = 200, Height = 100\<rparr>
                = Some (\<lparr>Width = 124, Height = 38\<rparr>, li')
            \<and> li_size2MinSize li' \<lparr>Width = 200, Height = 100\<rparr>
                = Some \<lparr>Width = 124, Height = 38\<rparr>)"
proof -
  have c: "li_cells twoColumns \<noteq> []" by (simp add: twoColumns_def)
  from twoColumns_minSize obtain li' where
    h: "MinSizeForSize twoColumns \<lparr>Width = 200, Height = 100\<rparr>
          = Some (\<lparr>Width = 124, Height = 38\<rparr>, li')"
    by (cases "MinSizeForSize twoColumns \<lparr>Width = 200, Height = 100\<rparr>") auto
  have p: "0 < Width \<lparr>Width = 124, Height = 38\<rparr> \<and> 0 < Height \<lparr>Width = 124, Height = 38\<rparr>"
    by simp
  from MinSizeForSize_idempotent_cached [of twoColumns "\<lparr>Width = 200, Height = 100\<rparr>"] h c p
  have "MinSizeForSize li' \<lparr>Width = 200, Height = 100\<rparr>
                = Some (\<lparr>Width = 124, Height = 38\<rparr>, li')
            \<and> li_size2MinSize li' \<lparr>Width = 200, Height = 100\<rparr>
                = Some \<lparr>Width = 124, Height = 38\<rparr>"
    by blast
  with h c show ?thesis by blast
qed

text \<open>
  The second call is not always answered from the cache: a grid without margins and
  without content has minimum size 0 \<open>\<times>\<close> 0, which the first call does not store.
\<close>

theorem MinSizeForSize_not_cached_counterexample:
  "map_option fst (MinSizeForSize emptyNoMargins \<lparr>Width = 200, Height = 100\<rparr>)
     = Some \<lparr>Width = 0, Height = 0\<rparr>
   \<and> map_option (\<lambda>p. li_size2MinSize (snd p) \<lparr>Width = 200, Height = 100\<rparr>)
        (MinSizeForSize emptyNoMargins \<lparr>Width = 200, Height = 100\<rparr>) = Some None"
  by code_simp

text \<open>
  C8. With an empty first column the width \<^verbatim>\<open>MinSizeForSize\<close> returns counts a spacing in
  front of the only non-empty column: 9 + 9 + 6 + 50 = 74, where the margins and the one
  non-zero section make 68.
\<close>

theorem MinSizeForSize_leading_empty_column:
  "map_option fst (MinSizeForSize leadingEmptyColumn \<lparr>Width = 200, Height = 100\<rparr>)
     = Some \<lparr>Width = 74, Height = 38\<rparr>
   \<and> minWidths leadingEmptyColumn = Some [0, 50]
   \<and> specTotal (li_spacingPixels leadingEmptyColumn) (marginsOf leadingEmptyColumn Horizontal)
        [0, 50] = 68"
  by code_simp

lemma addSections_later:
  "0 < i \<Longrightarrow> addSections sp i ws acc
     = acc + sum_list (filter (\<lambda>w. w > 0) ws) + sp * int (length (filter (\<lambda>w. w > 0) ws))"
  by (induction ws arbitrary: i acc) (auto simp: algebra_simps)

text \<open>
  The summing loop agrees with the total of the specification whenever the first section
  is not zero-sized (or there is no section at all).
\<close>

lemma addSections_specTotal:
  "ws = [] \<or> 0 < hd ws \<Longrightarrow> addSections sp 0 ws margins = specTotal sp margins ws"
  by (cases ws) (auto simp: specTotal_def addSections_later algebra_simps)

section \<open>The image view\<close>

text \<open>
  C9. For the view of the example the scale is min (100/200) (100/100) = 1/2, and the
  image is drawn stretched into the rectangle of width 100 and height 50 at X = 0,
  Y = 25.
\<close>

theorem drawImage_shrink_example:
  "imageScale ImageViewModeShrink \<lparr>Width = 100, Height = 100\<rparr> \<lparr>Width = 200, Height = 100\<rparr>
     = Some (min (100 / 200) (100 / 100))
   \<and> imageScale ImageViewModeShrink \<lparr>Width = 100, Height = 100\<rparr> \<lparr>Width = 200, Height = 100\<rparr>
     = Some (1 / 2)
   \<and> drawImage shrinkView
     = Some (DrawImageStretchedPixels \<lparr>rpX = 0, rpY = 25, rpWidth = 100, rpHeight = 50\<rparr>)"
  by (simp add: drawImage_def shrinkView_def imageScale_def truncPixel_def
        signed_divide_int_def Let_def)

section \<open>Single-span items and the minimum sizes\<close>

lemma minContribution_Horizontal:
  "minContribution li Horizontal widths col row =
     (case cellItem li row col of
        Some (Some item) \<Rightarrow>
          if shouldLayout item then
            (case li_item2Info li (ident item) of
               Some info \<Rightarrow> if ii_spanHorz info = 1 then Some (Width (MinSizeEffective item)) else None
             | None \<Rightarrow> None)
          else None
      | _ \<Rightarrow> None)"
  by (auto simp: minContribution_def laidOutItem_def spanOn_def split: option.splits)

lemma wsRow_effect:
  "wsRow li row cols ws = Some ws' \<Longrightarrow> distinct cols \<Longrightarrow> \<forall>c \<in> set cols. c < length ws \<Longrightarrow>
     length ws' = length ws
     \<and> (\<forall>c < length ws.
           ws' ! c = (if c \<in> set cols
                      then (case minContribution li Horizontal [] c row of
                              Some v \<Rightarrow> max (ws ! c) v | None \<Rightarrow> ws ! c)
                      else ws ! c))"
proof (induction cols arbitrary: ws)
  case Nil
  then show ?case by simp
next
  case (Cons col cols)
  define upd where "upd = (case minContribution li Horizontal [] col row of
                Some v \<Rightarrow> ws[col := max (ws ! col) v] | None \<Rightarrow> ws)"
  have step: "wsRow li row cols upd = Some ws'"
    using Cons.prems(1) unfolding upd_def
    by (auto simp: minContribution_Horizontal maxPixel_max split: option.splits if_splits)
  have len: "length upd = length ws" by (simp add: upd_def split: option.splits)
  have d: "distinct cols" "col \<notin> set cols" "col < length ws" using Cons.prems by auto
  have b: "\<forall>c \<in> set cols. c < length upd" using Cons.prems(3) len by simp
  note ih = Cons.IH [OF step d(1) b]
  have at_col: "upd ! col = (case minContribution li Horizontal [] col row of
                              Some v \<Rightarrow> max (ws ! col) v | None \<Rightarrow> ws ! col)"
    using d(3) by (simp add: upd_def split: option.splits)
  have other: "upd ! c = ws ! c" if "c \<noteq> col" for c
    using that by (simp add: upd_def split: option.splits)
  show ?case
  proof (intro conjI allI impI)
    show "length ws' = length ws" using ih len by simp
  next
    fix c assume c: "c < length ws"
    then have ihc: "ws' ! c = (if c \<in> set cols
                      then (case minContribution li Horizontal [] c row of
                              Some v \<Rightarrow> max (upd ! c) v | None \<Rightarrow> upd ! c)
                      else upd ! c)"
      using ih len by simp
    show "ws' ! c = (if c \<in> set (col # cols)
                      then (case minContribution li Horizontal [] c row of
                              Some v \<Rightarrow> max (ws ! c) v | None \<Rightarrow> ws ! c)
                      else ws ! c)"
    proof (cases "c = col")
      case True
      show ?thesis unfolding True using ihc [unfolded True] d at_col by simp
    next
      case False
      show ?thesis using False ihc unfolding other [OF False] by simp
    qed
  qed
qed

lemma wsRows_effect:
  "wsRows li rows ws = Some ws' \<Longrightarrow>
     length ws' = length ws
     \<and> (\<forall>c < length ws.
           ws' ! c = fold max (List.map_filter (\<lambda>row. minContribution li Horizontal [] c row) rows)
                       (ws ! c))"
proof (induction rows arbitrary: ws)
  case Nil
  then show ?case by (simp add: List.map_filter_simps)
next
  case (Cons row rows)
  from Cons.prems obtain ws1 where
    r: "wsRow li row [0 ..< length ws] ws = Some ws1" and rest: "wsRows li rows ws1 = Some ws'"
    by (auto split: option.splits)
  have e: "length ws1 = length ws
     \<and> (\<forall>c < length ws.
           ws1 ! c = (if c \<in> set [0 ..< length ws]
                      then (case minContribution li Horizontal [] c row of
                              Some v \<Rightarrow> max (ws ! c) v | None \<Rightarrow> ws ! c)
                      else ws ! c))"
    by (rule wsRow_effect [OF r]) simp_all
  note ih = Cons.IH [OF rest]
  show ?case
  proof (intro conjI allI impI)
    show "length ws' = length ws" using ih e by simp
  next
    fix c assume c: "c < length ws"
    then have "ws' ! c = fold max (List.map_filter (\<lambda>row. minContribution li Horizontal [] c row) rows)
                       (ws1 ! c)"
      using ih e by simp
    moreover have "ws1 ! c = (case minContribution li Horizontal [] c row of
                              Some v \<Rightarrow> max (ws ! c) v | None \<Rightarrow> ws ! c)"
      using e c by simp
    ultimately show "ws' ! c
        = fold max (List.map_filter (\<lambda>row. minContribution li Horizontal [] c row) (row # rows))
            (ws ! c)"
      by (cases "minContribution li Horizontal [] c row")
         (simp_all add: List.map_filter_simps max.commute)
  qed
qed

lemma minWidths_effect:
  assumes "minWidths li = Some ws" "c < length ws"
  shows "ws ! c = Max (set (0 # List.map_filter (minContribution li Horizontal [] c)
                                  [0 ..< length (li_cells li)]))"
proof -
  from assms(1) obtain row0 rest where cells: "li_cells li = row0 # rest"
    and w: "wsRows li [0 ..< length (li_cells li)] (replicate (length row0) 0) = Some ws"
    by (auto simp: minWidths_def split: list.splits)
  from wsRows_effect [OF w] assms(2) show ?thesis
    by (simp add: fold_max_Max)
qed

text \<open>
  C4. Only laid-out items whose span on the axis is 1 contribute to the minimum size of a
  section, in the scan of \<^verbatim>\<open>sectionSizesForSpace\<close> and in the minimum widths of
  \<^verbatim>\<open>MinSizeForSize\<close>: the minimum is the largest of 0 and the contributions of these
  items. An item of another span contributes nothing, and a section all of whose
  laid-out items span several sections has minimum size 0.
\<close>

theorem minSize_single_span_only:
  "(\<forall>secs. sectionInfos li orientation widths = Some secs \<longrightarrow>
      (\<forall>i < length secs.
         minSize (secs ! i)
           = Max (set (0 # List.map_filter (minContribution li orientation widths i)
                             [0 ..< otherAxisCount li orientation]))
         \<and> ((\<forall>j < otherAxisCount li orientation. \<forall>p.
                laidOutItem li orientation i j = Some p \<longrightarrow> spanOn orientation (snd p) \<noteq> 1)
              \<longrightarrow> minSize (secs ! i) = 0)))
   \<and> (\<forall>ws. minWidths li = Some ws \<longrightarrow>
      (\<forall>c < length ws.
         ws ! c = Max (set (0 # List.map_filter (minContribution li Horizontal [] c)
                                  [0 ..< length (li_cells li)]))
         \<and> ((\<forall>row < length (li_cells li). \<forall>p.
                laidOutItem li Horizontal c row = Some p \<longrightarrow> spanOn Horizontal (snd p) \<noteq> 1)
              \<longrightarrow> ws ! c = 0)))"
proof -
  have A: "\<forall>secs. sectionInfos li orientation widths = Some secs \<longrightarrow>
      (\<forall>i < length secs.
         minSize (secs ! i)
           = Max (set (0 # List.map_filter (minContribution li orientation widths i)
                             [0 ..< otherAxisCount li orientation]))
         \<and> ((\<forall>j < otherAxisCount li orientation. \<forall>p.
                laidOutItem li orientation i j = Some p \<longrightarrow> spanOn orientation (snd p) \<noteq> 1)
              \<longrightarrow> minSize (secs ! i) = 0))"
    using sectionInfos_minSize by blast
  have B: "\<forall>ws. minWidths li = Some ws \<longrightarrow>
      (\<forall>c < length ws.
         ws ! c = Max (set (0 # List.map_filter (minContribution li Horizontal [] c)
                                  [0 ..< length (li_cells li)]))
         \<and> ((\<forall>row < length (li_cells li). \<forall>p.
                laidOutItem li Horizontal c row = Some p \<longrightarrow> spanOn Horizontal (snd p) \<noteq> 1)
              \<longrightarrow> ws ! c = 0))"
  proof (intro allI impI conjI)
    fix ws c
    assume w: "minWidths li = Some ws" and c: "c < length ws"
    show "ws ! c = Max (set (0 # List.map_filter (minContribution li Horizontal [] c)
                                  [0 ..< length (li_cells li)]))"
      using w c by (rule minWidths_effect)
  next
    fix ws c
    assume w: "minWidths li = Some ws" and c: "c < length ws"
      and a: "\<forall>row < length (li_cells li). \<forall>p.
                laidOutItem li Horizontal c row = Some p \<longrightarrow> spanOn Horizontal (snd p) \<noteq> 1"
    have "minContribution li Horizontal [] c row = None"
      if "row \<in> set [0 ..< length (li_cells li)]" for row
      using a that by (auto simp: minContribution_def split: option.splits)
    then have "List.map_filter (minContribution li Horizontal [] c) [0 ..< length (li_cells li)] = []"
      by (auto simp: List.map_filter_def filter_empty_conv)
    then show "ws ! c = 0" using minWidths_effect [OF w c] by simp
  qed
  from A B show ?thesis by (rule conjI)
qed

lemma spanningOnly_minWidths: "minWidths spanningOnly = Some [0, 0]"
  by code_simp

theorem minSize_single_span_only_witness:
  "sectionInfos spanningOnly Horizontal [] = Some [plainSection 0 0, plainSection 1 0]
   \<and> minWidths spanningOnly = Some [0, 0]
   \<and> laidOutItem spanningOnly Horizontal 0 0
       = Some (plainItem 1 80 20,
               \<lparr>ii_cell = Some (0, 0), ii_spanHorz = 2, ii_spanVert = 1, ii_minSize = zeroSize\<rparr>)
   \<and> minSize ([plainSection 0 0, plainSection 1 0] ! 0) = 0
   \<and> [0, 0] ! 0 = (0::int)"
proof -
  have l: "laidOutItem spanningOnly Horizontal 0 0
       = Some (plainItem 1 80 20,
               \<lparr>ii_cell = Some (0, 0), ii_spanHorz = 2, ii_spanVert = 1, ii_minSize = zeroSize\<rparr>)"
    by (simp add: laidOutItem_def spanningOnly_def cellItem_def itemCell_def plainItem_def)
  have a: "\<forall>j < otherAxisCount spanningOnly Horizontal. \<forall>p.
             laidOutItem spanningOnly Horizontal 0 j = Some p \<longrightarrow> spanOn Horizontal (snd p) \<noteq> 1"
    using l by (auto simp: otherAxisCount_def spanningOnly_def spanOn_def)
  have a': "\<forall>row < length (li_cells spanningOnly). \<forall>p.
             laidOutItem spanningOnly Horizontal 0 row = Some p \<longrightarrow> spanOn Horizontal (snd p) \<noteq> 1"
    using l by (auto simp: spanningOnly_def spanOn_def)
  note t = minSize_single_span_only [of spanningOnly Horizontal "[]"]
  have i: "(0::nat) < length [plainSection 0 0, plainSection 1 0]" by simp
  have c: "(0::nat) < length [0::int, 0]" by simp
  from t spanningOnly_secs i a
  have m: "minSize ([plainSection 0 0, plainSection 1 0] ! 0) = 0" by blast
  from t spanningOnly_minWidths c a'
  have w: "[0, 0] ! 0 = (0::int)" by blast
  from spanningOnly_secs spanningOnly_minWidths l m w show ?thesis by blast
qed

end
